theory Spec2Isabelle
  imports Complex_Main "HOL-Library.Word"
begin

section \<open>JavaScript values\<close>

text \<open>
  Request bodies, broker payloads and WebSocket control messages are JSON. A parsed JSON
  text is a value of \<open>json\<close>; numbers are the finite values a JSON text denotes, and an
  object lists each key once, as \<open>JSON.parse\<close> builds it.
  \<open>truthy\<close> is JavaScript's ToBoolean on such a value: \<open>null\<close>, \<open>false\<close>, \<open>0\<close> and the
  empty string are falsy, every array and object is truthy.
\<close>

datatype json =
    JNull
  | JBool bool
  | JNum rat
  | JStr string
  | JArr "json list"
  | JObj "(string \<times> json) list"

fun truthy :: "json \<Rightarrow> bool" where
  "truthy JNull = False"
| "truthy (JBool b) = b"
| "truthy (JNum n) = (n \<noteq> 0)"
| "truthy (JStr s) = (s \<noteq> [])"
| "truthy (JArr xs) = True"
| "truthy (JObj kvs) = True"

text \<open>\<open>a || b\<close> where \<open>a\<close> is a property that may be absent (\<open>undefined\<close> is falsy).\<close>

definition js_or :: "json option \<Rightarrow> json \<Rightarrow> json" where
  "js_or a b = (case a of None \<Rightarrow> b | Some v \<Rightarrow> if truthy v then v else b)"

definition str_or :: "string option \<Rightarrow> string \<Rightarrow> string" where
  "str_or a b = (case a of None \<Rightarrow> b | Some s \<Rightarrow> if s \<noteq> [] then s else b)"

text \<open>
  Object spread \<open>{...a, ...b}\<close> on one optional property: the value of \<open>b\<close> wins when
  \<open>b\<close> has the property.
\<close>

definition spread :: "'a option \<Rightarrow> 'a option \<Rightarrow> 'a option" where
  "spread a b = (case b of None \<Rightarrow> a | Some v \<Rightarrow> Some v)"

section \<open>Decimal strings\<close>

text \<open>\<open>Number.prototype.toString\<close> on a non-negative integer.\<close>

definition digit_char :: "nat \<Rightarrow> char" where
  "digit_char d = ''0123456789'' ! d"

function toString :: "nat \<Rightarrow> string" where
  "toString n = (if n < 10 then [digit_char n] else toString (n div 10) @ [digit_char (n mod 10)])"
  by pat_completeness auto
termination
  by (relation "measure id") auto

declare toString.simps [simp del]

text \<open>\<open>Set.prototype.add\<close> on a Set of strings, kept in insertion order.\<close>

definition set_add :: "'a \<Rightarrow> 'a list \<Rightarrow> 'a list" where
  "set_add x xs = (if x \<in> set xs then xs else xs @ [x])"

section \<open>Topic identifier generator (utils/topicIdGenerator.js)\<close>

text \<open>
  What the generator reads from outside: the clock and the operating system's random
  bytes. \<open>clock k\<close> is the value of the \<open>k\<close>-th call of \<open>Date.now()\<close>, in milliseconds
  since the epoch; \<open>entropy k\<close> is the \<open>k\<close>-th byte that \<open>crypto.randomBytes\<close> hands out.
  \<open>ticks\<close> and \<open>drawn\<close> count the calls and the bytes used so far.
\<close>

record gen_env =
  clock :: "nat \<Rightarrow> nat"
  ticks :: nat
  entropy :: "nat \<Rightarrow> 8 word"
  drawn :: nat

definition Date_now :: "gen_env \<Rightarrow> nat \<times> gen_env" where
  "Date_now e = (clock e (ticks e), e\<lparr>ticks := ticks e + 1\<rparr>)"

definition randomBytes :: "(nat \<Rightarrow> 8 word) \<Rightarrow> nat \<Rightarrow> nat \<Rightarrow> 8 word list" where
  "randomBytes src pos n = map (\<lambda>i. src (pos + i)) [0..<n]"

subsection \<open>secureRandom\<close>

text \<open>
  \<open>x << 8\<close> works on 32-bit integers: the product wraps into the signed range.
  \<open>a % b\<close> takes the sign of \<open>a\<close>. The generator calls \<open>secureRandom\<close> with the
  bounds 10, 99 and 1000, 9999 only, where one and two bytes are drawn and nothing wraps.
\<close>

definition to_int32 :: "int \<Rightarrow> int" where
  "to_int32 x = (x + 2 ^ 31) mod 2 ^ 32 - 2 ^ 31"

definition shl8 :: "int \<Rightarrow> int" where
  "shl8 x = to_int32 (x * 256)"

definition js_rem :: "int \<Rightarrow> int \<Rightarrow> int" where
  "js_rem a b = sgn a * (\<bar>a\<bar> mod \<bar>b\<bar>)"

text \<open>\<open>Math.ceil(Math.log2(range) / 8)\<close> for \<open>range \<ge> 1\<close>: the least \<open>n\<close> with \<open>range \<le> 256 ^ n\<close>.\<close>

function bytesNeeded :: "nat \<Rightarrow> nat" where
  "bytesNeeded r = (if r \<le> 1 then 0 else Suc (bytesNeeded ((r + 255) div 256)))"
  by pat_completeness auto
termination
  by (relation "measure id") auto

declare bytesNeeded.simps [simp del]

definition randomValue_of :: "8 word list \<Rightarrow> int" where
  "randomValue_of bytes = fold (\<lambda>b v. shl8 v + uint b) bytes 0"

text \<open>
  The \<open>do ... while (randomValue > maxValidValue)\<close> loop. It runs for as long as the
  bytes drawn are rejected; \<open>None\<close> is a run that never leaves the loop. The result is
  the accepted value and the position in the byte stream after it.
\<close>

partial_function (option) draw_until ::
  "(nat \<Rightarrow> 8 word) \<Rightarrow> nat \<Rightarrow> int \<Rightarrow> nat \<Rightarrow> (int \<times> nat) option" where
  "draw_until src n maxValidValue pos =
     (let randomValue = randomValue_of (randomBytes src pos n) in
      if randomValue > maxValidValue then draw_until src n maxValidValue (pos + n)
      else Some (randomValue, pos + n))"

definition secureRandom ::
  "int \<Rightarrow> int \<Rightarrow> (nat \<Rightarrow> 8 word) \<Rightarrow> nat \<Rightarrow> (int \<times> nat) option" where
  "secureRandom minimum maximum src pos =
     (let r = maximum - minimum + 1;
          n = bytesNeeded (nat r);
          maxValidValue = (256 ^ n div r) * r - 1
      in case draw_until src n maxValidValue pos of
           None \<Rightarrow> None
         | Some (randomValue, pos1) \<Rightarrow> Some (minimum + js_rem randomValue r, pos1))"

definition secureRandom_env :: "int \<Rightarrow> int \<Rightarrow> gen_env \<Rightarrow> (int \<times> gen_env) option" where
  "secureRandom_env minimum maximum e =
     (case secureRandom minimum maximum (entropy e) (drawn e) of
        None \<Rightarrow> None
      | Some (v, pos1) \<Rightarrow> Some (v, e\<lparr>drawn := pos1\<rparr>))"

subsection \<open>Strings\<close>

definition js_toString :: "int \<Rightarrow> string" where
  "js_toString i = (if i < 0 then CHR ''-'' # toString (nat (- i)) else toString (nat i))"

definition hex_char :: "nat \<Rightarrow> char" where
  "hex_char d = ''0123456789abcdef'' ! d"

definition toString_hex :: "8 word list \<Rightarrow> string" where
  "toString_hex bytes = concat (map (\<lambda>b. [hex_char (unat b div 16), hex_char (unat b mod 16)]) bytes)"

text \<open>\<open>randomHex.replace(/[a-f]/g, (char) => (parseInt(char, 16) + 1).toString())\<close>\<close>

definition parseInt16 :: "char \<Rightarrow> nat option" where
  "parseInt16 c = map_of (zip ''abcdef'' [10, 11, 12, 13, 14, 15]) c"

definition replace_a_f :: "string \<Rightarrow> string" where
  "replace_a_f s = concat (map (\<lambda>c. case parseInt16 c of None \<Rightarrow> [c] | Some v \<Rightarrow> toString (v + 1)) s)"

definition padStart :: "nat \<Rightarrow> char \<Rightarrow> string \<Rightarrow> string" where
  "padStart n c s = replicate (n - length s) c @ s"

subsection \<open>generateTopicId\<close>

text \<open>
  One round of the \<open>do ... while\<close> loop: the candidate and the environment after it, or
  \<open>None\<close> when \<open>secureRandom\<close> does not return. \<open>attempts\<close> is the counter after its
  increment.
\<close>

definition candidate :: "nat \<Rightarrow> gen_env \<Rightarrow> (string \<times> gen_env) option" where
  "candidate attempts e =
     (let (now, e1) = Date_now e; timestamp = toString now in
      case secureRandom_env 10 99 e1 of
        None \<Rightarrow> None
      | Some (randomDigits, e2) \<Rightarrow>
          if attempts > 100
          then (case secureRandom_env 1000 9999 e2 of
                  None \<Rightarrow> None
                | Some (extraRandom, e3) \<Rightarrow> Some (take 11 timestamp @ js_toString extraRandom, e3))
          else Some (timestamp @ js_toString randomDigits, e2))"

function attempt_loop :: "nat \<Rightarrow> string list \<Rightarrow> gen_env \<Rightarrow> (string \<times> gen_env) option" where
  "attempt_loop attempts usedIds e =
     (case candidate (attempts + 1) e of
        None \<Rightarrow> None
      | Some (topicId, e1) \<Rightarrow>
          if topicId \<in> set usedIds \<and> attempts + 1 < 1000
          then attempt_loop (attempts + 1) usedIds e1
          else Some (topicId, e1))"
  by pat_completeness auto
termination
  by (relation "measure (\<lambda>(attempts, usedIds, e). 1000 - attempts)") auto

declare attempt_loop.simps [simp del]

definition generateTopicId ::
  "string list \<Rightarrow> gen_env \<Rightarrow> (string \<times> string list \<times> gen_env) option" where
  "generateTopicId usedIds e =
     (case attempt_loop 0 usedIds e of
        None \<Rightarrow> None
      | Some (topicId, e1) \<Rightarrow>
          let (topicId1, e2) =
                (if topicId \<in> set usedIds
                 then (let randomHex = toString_hex (randomBytes (entropy e1) (drawn e1) 8)
                       in (take 15 (replace_a_f randomHex), e1\<lparr>drawn := drawn e1 + 8\<rparr>))
                 else (topicId, e1));
              topicId2 =
                (if length topicId1 > 15 then take 15 topicId1
                 else if length topicId1 < 15 then padStart 15 (CHR ''0'') topicId1
                 else topicId1);
              usedIds1 = set_add topicId2 usedIds;
              usedIds2 =
                (if length usedIds1 > 10000 then drop (length usedIds1 - 5000) usedIds1
                 else usedIds1)
          in Some (topicId2, usedIds2, e2))"

definition validateTopicId :: "string \<Rightarrow> bool" where
  "validateTopicId topicId \<longleftrightarrow> length topicId = 15 \<and> set topicId \<subseteq> set ''0123456789''"

section \<open>The in-memory store (src/config/database.js)\<close>

text \<open>
  Five maps keyed by strings. An instant (\<open>new Date()\<close>, \<open>Date.now()\<close>) is a number of
  milliseconds since the epoch; where the code stores the ISO text of an instant, the
  record holds the instant.
\<close>

record reset_token =
  email :: string
  expiry :: nat
  used :: bool
  tok_createdAt :: nat
  usedAt :: "nat option"
  ip :: string

record dashboard =
  dash_id :: string
  name :: string
  widgets :: "json list"
  layout :: "json option"
  layouts :: "json option"
  deviceCount :: "rat option"
  stats :: "json option"
  userId :: string
  createdAt :: nat
  updatedAt :: nat
  isPublished :: bool
  publishedAt :: "nat option"
  shareableLink :: "string option"
  sharePassword :: "string option"
  shareableId :: "string option"

record shared_dashboard =
  panelId :: string
  shared_widgets :: "json list"
  shared_layouts :: json
  title :: string
  shared_stats :: json
  shared_sharePassword :: string
  shared_publishedAt :: nat
  isShared :: bool
  originalDashboardId :: string

record storage =
  resetTokens :: "string \<rightharpoonup> reset_token"
  dashboards :: "string \<rightharpoonup> dashboard"
  sharedDashboards :: "string \<rightharpoonup> shared_dashboard"
  sessions :: "string \<rightharpoonup> json"
  devices :: "string \<rightharpoonup> json"

text \<open>A handler answers with an HTTP status and error text, or with its success payload.\<close>

type_synonym http_error = "nat \<times> string"

text \<open>\<open>req.user?.id || 'anonymous'\<close>\<close>

definition requester :: "string option \<Rightarrow> string" where
  "requester req_user = str_or req_user ''anonymous''"

section \<open>Dashboard routes\<close>

text \<open>
  The request body after Joi validation: \<open>Inl msg\<close> when the schema rejects it, otherwise
  the validated value. Validation itself belongs to the Joi library. On a validated body
  no statement of a handler throws, so the handlers' catch-all answer 500 has no branch
  here.
\<close>

record save_body =
  sb_id :: "string option"
  sb_name :: string
  sb_widgets :: "json list"
  sb_layout :: "json option"
  sb_deviceCount :: "rat option"
  sb_stats :: "json option"

record publish_body =
  pb_id :: string
  pb_name :: string
  pb_widgets :: "json list"
  pb_layout :: "json option"
  pb_layouts :: "json option"
  pb_deviceCount :: "rat option"
  pb_stats :: "json option"
  pb_isPublished :: "bool option"
  pb_shareableLink :: "string option"
  pb_sharePassword :: "string option"
  pb_shareableId :: "string option"

subsection \<open>POST /save\<close>

text \<open>
  A caller-supplied id is kept when it is a well-formed topic id; otherwise one is
  generated. The result is \<open>None\<close> when \<open>generateTopicId\<close> does not return.
\<close>

definition save_dashboard ::
  "string option \<Rightarrow> string + save_body \<Rightarrow> nat \<Rightarrow> nat \<Rightarrow> string list \<Rightarrow> gen_env \<Rightarrow> storage
     \<Rightarrow> ((http_error + dashboard) \<times> string list \<times> gen_env \<times> storage) option" where
  "save_dashboard req_user body created updated usedIds e st =
     (case body of
        Inl msg \<Rightarrow> Some (Inl (400, msg), usedIds, e, st)
      | Inr v \<Rightarrow>
          let uid = requester req_user;
              kept = (case sb_id v of
                        None \<Rightarrow> None
                      | Some i \<Rightarrow> if i \<noteq> [] \<and> validateTopicId i then Some i else None)
          in case (case kept of
                     Some i \<Rightarrow> Some (i, usedIds, e)
                   | None \<Rightarrow> generateTopicId usedIds e) of
               None \<Rightarrow> None
             | Some (topicId, usedIds1, e1) \<Rightarrow>
                 let dashboard =
                       \<lparr> dash_id = topicId, name = sb_name v, widgets = sb_widgets v,
                         layout = sb_layout v, layouts = None,
                         deviceCount = sb_deviceCount v, stats = sb_stats v,
                         userId = uid, createdAt = created, updatedAt = updated,
                         isPublished = False, publishedAt = None, shareableLink = None,
                         sharePassword = None, shareableId = None \<rparr>
                 in Some (Inr dashboard, usedIds1, e1,
                          st\<lparr>dashboards := (dashboards st)(topicId \<mapsto> dashboard)\<rparr>))"

subsection \<open>PUT /update/:id\<close>

definition update_dashboard ::
  "string \<Rightarrow> string option \<Rightarrow> string + save_body \<Rightarrow> nat \<Rightarrow> storage \<Rightarrow> (http_error + dashboard) \<times> storage" where
  "update_dashboard dashboardId req_user body now st =
     (let uid = requester req_user in
      case body of
        Inl msg \<Rightarrow> (Inl (400, msg), st)
      | Inr v \<Rightarrow>
          (case dashboards st dashboardId of
             None \<Rightarrow> (Inl (404, ''Dashboard not found''), st)
           | Some existingDashboard \<Rightarrow>
               if userId existingDashboard \<noteq> uid
               then (Inl (403, ''Unauthorized to update this dashboard''), st)
               else
                 let updatedDashboard = existingDashboard
                       \<lparr> name := sb_name v,
                         widgets := sb_widgets v,
                         layout := spread (layout existingDashboard) (sb_layout v),
                         deviceCount := spread (deviceCount existingDashboard) (sb_deviceCount v),
                         stats := spread (stats existingDashboard) (sb_stats v),
                         dash_id := dashboardId,
                         userId := uid,
                         updatedAt := now \<rparr>
                 in (Inr updatedDashboard,
                     st\<lparr>dashboards := (dashboards st)(dashboardId \<mapsto> updatedDashboard)\<rparr>)))"

subsection \<open>POST /publish\<close>

text \<open>
  What the handler reads from its environment: the clock (\<open>Date.now()\<close> and the two
  \<open>new Date()\<close>), the two \<open>Math.random()\<close> strings after their base-36 formatting, and
  \<open>process.env.FRONTEND_URL\<close>.
\<close>

record publish_env =
  pe_now :: nat
  pe_publishedAt :: nat
  pe_updatedAt :: nat
  pe_random_id :: string
  pe_random_password :: string
  pe_frontend_url :: "string option"

definition new_shareableId :: "publish_env \<Rightarrow> string" where
  "new_shareableId env = ''shared-'' @ toString (pe_now env) @ ''-'' @ pe_random_id env"

definition publish_dashboard ::
  "string option \<Rightarrow> string + publish_body \<Rightarrow> publish_env \<Rightarrow> storage \<Rightarrow> (http_error + dashboard) \<times> storage" where
  "publish_dashboard req_user body env st =
     (case body of
        Inl msg \<Rightarrow> (Inl (400, msg), st)
      | Inr v \<Rightarrow>
          let dashboardData_layout = js_or (pb_layout v) (js_or (pb_layouts v) (JObj []));
              uid = requester req_user
          in
          (case dashboards st (pb_id v) of
             None \<Rightarrow> (Inl (404, ''Dashboard not found''), st)
           | Some existingDashboard \<Rightarrow>
               if userId existingDashboard \<noteq> uid
               then (Inl (403, ''Unauthorized to publish this dashboard''), st)
               else
                 let sid = new_shareableId env;
                     link = str_or (pe_frontend_url env) ''http://localhost:3000'' @ ''/shared/'' @ sid;
                     pw = pe_random_password env;
                     publishedDashboard = existingDashboard
                       \<lparr> dash_id := pb_id v,
                         name := pb_name v,
                         widgets := pb_widgets v,
                         layout := Some dashboardData_layout,
                         layouts := spread (layouts existingDashboard) (pb_layouts v),
                         deviceCount := spread (deviceCount existingDashboard) (pb_deviceCount v),
                         stats := spread (stats existingDashboard) (pb_stats v),
                         isPublished := True,
                         publishedAt := Some (pe_publishedAt env),
                         shareableLink := Some link,
                         sharePassword := Some pw,
                         shareableId := Some sid,
                         updatedAt := pe_updatedAt env \<rparr>;
                     st1 = st\<lparr>dashboards := (dashboards st)(pb_id v \<mapsto> publishedDashboard)\<rparr>;
                     sharedDashboardData =
                       \<lparr> panelId = sid,
                         shared_widgets = widgets publishedDashboard,
                         shared_layouts = js_or (layout publishedDashboard) (JObj []),
                         title = (if name publishedDashboard \<noteq> [] then name publishedDashboard
                                  else ''Shared Dashboard''),
                         shared_stats = js_or (stats publishedDashboard)
                            (JObj [(''totalWidgets'', JNum (of_nat (length (widgets publishedDashboard)))),
                                   (''gridUtilization'', JNum 0)]),
                         shared_sharePassword = pw,
                         shared_publishedAt = pe_publishedAt env,
                         isShared = True,
                         originalDashboardId = pb_id v \<rparr>
                 in (Inr publishedDashboard,
                     st1\<lparr>sharedDashboards := (sharedDashboards st1)(sid \<mapsto> sharedDashboardData)\<rparr>)))"

subsection \<open>GET /shared/:shareableId\<close>

text \<open>\<open>req.query.password\<close> is absent or a string; the empty string is falsy.\<close>

definition get_shared_dashboard ::
  "string \<Rightarrow> string option \<Rightarrow> storage \<Rightarrow> http_error + shared_dashboard" where
  "get_shared_dashboard sid password st =
     (case sharedDashboards st sid of
        None \<Rightarrow> Inl (404, ''Shared dashboard not found'')
      | Some sharedDashboard \<Rightarrow>
          (case password of
             None \<Rightarrow> Inr sharedDashboard
           | Some p \<Rightarrow>
               if p \<noteq> [] \<and> p \<noteq> shared_sharePassword sharedDashboard
               then Inl (401, ''Invalid access password'')
               else Inr sharedDashboard))"

subsection \<open>DELETE /:id\<close>

definition delete_dashboard ::
  "string \<Rightarrow> string option \<Rightarrow> storage \<Rightarrow> (http_error + string) \<times> storage" where
  "delete_dashboard dashboardId req_user st =
     (let uid = requester req_user in
      case dashboards st dashboardId of
        None \<Rightarrow> (Inl (404, ''Dashboard not found''), st)
      | Some existingDashboard \<Rightarrow>
          if userId existingDashboard \<noteq> uid
          then (Inl (403, ''Unauthorized to delete this dashboard''), st)
          else
            let st1 = st\<lparr>dashboards := (dashboards st)(dashboardId := None)\<rparr>;
                st2 = (case shareableId existingDashboard of
                         None \<Rightarrow> st1
                       | Some sid \<Rightarrow>
                           if isPublished existingDashboard \<and> sid \<noteq> []
                           then st1\<lparr>sharedDashboards := (sharedDashboards st1)(sid := None)\<rparr>
                           else st1)
            in (Inr ''Dashboard deleted successfully'', st2))"

section \<open>Password reset (routes/auth.js)\<close>








section \<open>Upstream message client (services/mqttService.js)\<close>

record mqtt_record =
  topic :: string
  data :: json
  raw :: string
  receivedAt :: nat

record mqtt_config =
  subscribeTopics :: "string list"
  qos :: nat

text \<open>
  The service object. \<open>client\<close> tells whether \<open>this.client\<close> is set. The last four fields
  stand for the mqtt.js client object: \<open>once_connect\<close> holds the listeners registered
  with \<open>client.once('connect', ...)\<close>, each the topic and options of a deferred
  subscribe, in registration order; the other three log the calls of \<open>client.subscribe\<close>,
  \<open>client.unsubscribe\<close> and \<open>client.publish\<close>. The options of a subscribe are its
  quality-of-service level, when given. A new client object has no listeners, and the
  listeners of a client that is shut down are gone with it.
\<close>

record mqtt_service =
  client :: bool
  isConnected :: bool
  latestByTopic :: "string \<rightharpoonup> mqtt_record"
  subscriptions :: "string list"
  once_connect :: "(string \<times> nat option) list"
  broker_subscribes :: "(string \<times> nat option) list"
  broker_unsubscribes :: "string list"
  broker_publishes :: "(string \<times> string) list"

definition connect :: "mqtt_service \<Rightarrow> mqtt_service" where
  "connect s = (if client s then s else s\<lparr>client := True, once_connect := []\<rparr>)"

definition subscribe :: "string \<Rightarrow> nat option \<Rightarrow> mqtt_service \<Rightarrow> mqtt_service" where
  "subscribe t options s =
     (let s1 = (if \<not> client s then connect s else s) in
      if \<not> isConnected s1
      then s1\<lparr>once_connect := once_connect s1 @ [(t, options)]\<rparr>
      else s1\<lparr>broker_subscribes := broker_subscribes s1 @ [(t, options)]\<rparr>)"

definition subscribe_callback :: "string \<Rightarrow> string option \<Rightarrow> mqtt_service \<Rightarrow> mqtt_service" where
  "subscribe_callback t err s =
     (case err of Some msg \<Rightarrow> s | None \<Rightarrow> s\<lparr>subscriptions := set_add t (subscriptions s)\<rparr>)"

definition unsubscribe :: "string \<Rightarrow> mqtt_service \<Rightarrow> mqtt_service" where
  "unsubscribe t s =
     (if \<not> client s \<or> \<not> isConnected s then s
      else s\<lparr>broker_unsubscribes := broker_unsubscribes s @ [t]\<rparr>)"

definition unsubscribe_callback :: "string \<Rightarrow> string option \<Rightarrow> mqtt_service \<Rightarrow> mqtt_service" where
  "unsubscribe_callback t err s =
     (case err of Some msg \<Rightarrow> s | None \<Rightarrow> s\<lparr>subscriptions := removeAll t (subscriptions s)\<rparr>)"

text \<open>\<open>payload\<close> is the message after its conversion to a string.\<close>

definition publish :: "string \<Rightarrow> string \<Rightarrow> mqtt_service \<Rightarrow> mqtt_service" where
  "publish t payload s =
     (let s1 = (if \<not> client s then connect s else s) in
      s1\<lparr>broker_publishes := broker_publishes s1 @ [(t, payload)]\<rparr>)"

definition shutdown :: "mqtt_service \<Rightarrow> mqtt_service" where
  "shutdown s = (if client s then s\<lparr>client := False, once_connect := [], isConnected := False\<rparr>
                 else s\<lparr>isConnected := False\<rparr>)"

text \<open>
  The client's \<open>'connect'\<close> event. Listeners run in registration order: first the one
  \<open>connect()\<close> registered, which sets \<open>isConnected\<close> and subscribes to the configured
  topics, then each \<open>once\<close> listener, which is removed as it runs.
\<close>

definition on_connect :: "mqtt_config \<Rightarrow> mqtt_service \<Rightarrow> mqtt_service" where
  "on_connect cfg s =
     (let s1 = s\<lparr>isConnected := True\<rparr>;
          s2 = fold (\<lambda>t. subscribe t (Some (qos cfg))) (subscribeTopics cfg) s1;
          deferred = once_connect s;
          s3 = s2\<lparr>once_connect := drop (length deferred) (once_connect s2)\<rparr>
      in fold (\<lambda>(t, options). subscribe t options) deferred s3)"

definition on_close :: "mqtt_service \<Rightarrow> mqtt_service" where
  "on_close s = s\<lparr>isConnected := False\<rparr>"

text \<open>
  The client's \<open>'message'\<close> event; \<open>payload\<close> is the text of the message buffer.
  \<open>JSON_parse\<close> stands for the built-in parser:
  \<open>Some v\<close> when the text denotes the value \<open>v\<close>, \<open>None\<close> when \<open>JSON.parse\<close> throws.
  The result is the record handed to \<open>this.emit('message', record)\<close> and the service
  with its cache written.
\<close>

definition on_message ::
  "(string \<Rightarrow> json option) \<Rightarrow> string \<Rightarrow> string \<Rightarrow> nat \<Rightarrow> mqtt_service
     \<Rightarrow> mqtt_record \<times> mqtt_service" where
  "on_message JSON_parse t payload now s =
     (let messageString = payload;
          d = (case JSON_parse messageString of Some v \<Rightarrow> v | None \<Rightarrow> JStr messageString);
          record = \<lparr> topic = t, data = d, raw = messageString, receivedAt = now \<rparr>
      in (record, s\<lparr>latestByTopic := (latestByTopic s)(t \<mapsto> record)\<rparr>))"

text \<open>
  What can happen to the service: a call of one of its methods, a callback of a
  subscribe or an unsubscribe with the error it reports, if any, and the events of the
  client object. A service without a client has no object that could raise
  \<open>'connect'\<close> or \<open>'message'\<close>.
\<close>

datatype mqtt_event =
    Connect
  | Subscribe string "nat option"
  | SubscribeCallback string "string option"
  | Unsubscribe string
  | UnsubscribeCallback string "string option"
  | Publish string string
  | Shutdown
  | OnConnect
  | OnReconnect
  | OnClose
  | OnError string
  | OnMessage string string nat

fun mqtt_step ::
  "mqtt_config \<Rightarrow> (string \<Rightarrow> json option) \<Rightarrow> mqtt_event \<Rightarrow> mqtt_service \<Rightarrow> mqtt_service" where
  "mqtt_step cfg P Connect s = connect s"
| "mqtt_step cfg P (Subscribe t options) s = subscribe t options s"
| "mqtt_step cfg P (SubscribeCallback t err) s = subscribe_callback t err s"
| "mqtt_step cfg P (Unsubscribe t) s = unsubscribe t s"
| "mqtt_step cfg P (UnsubscribeCallback t err) s = unsubscribe_callback t err s"
| "mqtt_step cfg P (Publish t m) s = publish t m s"
| "mqtt_step cfg P Shutdown s = shutdown s"
| "mqtt_step cfg P OnConnect s = (if client s then on_connect cfg s else s)"
| "mqtt_step cfg P OnReconnect s = s"
| "mqtt_step cfg P OnClose s = on_close s"
| "mqtt_step cfg P (OnError msg) s = s"
| "mqtt_step cfg P (OnMessage t payload now) s =
     (if client s then snd (on_message P t payload now s) else s)"

definition mqtt_run ::
  "mqtt_config \<Rightarrow> (string \<Rightarrow> json option) \<Rightarrow> mqtt_event list \<Rightarrow> mqtt_service \<Rightarrow> mqtt_service" where
  "mqtt_run cfg P evs s = fold (mqtt_step cfg P) evs s"

section \<open>Fan-out server (services/wsService.js)\<close>

record envelope =
  env_type :: string
  env_topic :: string
  env_data :: json
  env_raw :: string
  env_receivedAt :: nat

text \<open>
  A downstream connection: its \<open>readyState\<close> (1 is OPEN), the members of the
  \<open>ws.subscriptions\<close> Set in insertion order, and the envelopes handed to \<open>send\<close>, each
  the object that \<open>JSON.stringify\<close> turns into the payload text. The connection handler
  gives every connection its Set before any message arrives.
\<close>

record ws_client =
  readyState :: nat
  ws_subscriptions :: "json list"
  sent :: "envelope list"

text \<open>
  A JavaScript Set compares members by SameValueZero: strings, numbers, booleans and
  \<open>null\<close> by value, arrays and objects by identity. A value that \<open>JSON.parse\<close> has
  just built is a new object, identical to no member.
\<close>

fun is_reference :: "json \<Rightarrow> bool" where
  "is_reference (JArr xs) = True"
| "is_reference (JObj kvs) = True"
| "is_reference v = False"

definition Set_has :: "json \<Rightarrow> json list \<Rightarrow> bool" where
  "Set_has x xs \<longleftrightarrow> \<not> is_reference x \<and> x \<in> set xs"

definition Set_add :: "json \<Rightarrow> json list \<Rightarrow> json list" where
  "Set_add x xs = (if Set_has x xs then xs else xs @ [x])"

definition Set_delete :: "json \<Rightarrow> json list \<Rightarrow> json list" where
  "Set_delete x xs = (if is_reference x then xs else removeAll x xs)"

text \<open>Property read \<open>v.key\<close> on a parsed value; only objects have own properties here.\<close>

fun get_prop :: "json \<Rightarrow> string \<Rightarrow> json option" where
  "get_prop (JObj kvs) key = map_of kvs key"
| "get_prop v key = None"

text \<open>
  The \<open>'message'\<close> handler of a connection. \<open>JSON.parse\<close> may throw, and destructuring
  \<open>null\<close> throws; the \<open>catch\<close> swallows both. \<open>guarded kind action tp\<close> is the value of
  \<open>topic\<close> when \<open>action === kind && topic\<close> holds.
\<close>

definition guarded :: "string \<Rightarrow> json option \<Rightarrow> json option \<Rightarrow> json option" where
  "guarded kind action tp =
     (case tp of
        None \<Rightarrow> None
      | Some v \<Rightarrow> if action = Some (JStr kind) \<and> truthy v then Some v else None)"

definition ws_on_message :: "(string \<Rightarrow> json option) \<Rightarrow> string \<Rightarrow> ws_client \<Rightarrow> ws_client" where
  "ws_on_message JSON_parse msg ws =
     (case JSON_parse msg of
        None \<Rightarrow> ws
      | Some JNull \<Rightarrow> ws
      | Some v \<Rightarrow>
          let action = get_prop v ''action''; tp = get_prop v ''topic'';
              ws1 = (case guarded ''subscribe'' action tp of
                       Some x \<Rightarrow> ws\<lparr>ws_subscriptions := Set_add x (ws_subscriptions ws)\<rparr>
                     | None \<Rightarrow> ws)
          in (case guarded ''unsubscribe'' action tp of
                Some x \<Rightarrow> ws1\<lparr>ws_subscriptions := Set_delete x (ws_subscriptions ws1)\<rparr>
              | None \<Rightarrow> ws1))"






text \<open>
  The control message of the interface description: an object whose action is
  \<open>subscribe\<close> or \<open>unsubscribe\<close> and whose topic is a string. A message is malformed
  when its text is not JSON or its value is not of this shape.
\<close>

definition control_message :: "json \<Rightarrow> bool" where
  "control_message v \<longleftrightarrow>
     (case (get_prop v ''action'', get_prop v ''topic'') of
        (Some (JStr a), Some (JStr t)) \<Rightarrow> a = ''subscribe'' \<or> a = ''unsubscribe''
      | _ \<Rightarrow> False)"

definition malformed :: "(string \<Rightarrow> json option) \<Rightarrow> string \<Rightarrow> bool" where
  "malformed JSON_parse msg =
     (case JSON_parse msg of None \<Rightarrow> True | Some v \<Rightarrow> \<not> control_message v)"

text \<open>The messages the handler's own guards turn away.\<close>

definition ignored :: "(string \<Rightarrow> json option) \<Rightarrow> string \<Rightarrow> bool" where
  "ignored JSON_parse msg =
     (case JSON_parse msg of
        None \<Rightarrow> True
      | Some v \<Rightarrow> v = JNull
          \<or> (get_prop v ''action'' \<noteq> Some (JStr ''subscribe'')
               \<and> get_prop v ''action'' \<noteq> Some (JStr ''unsubscribe''))
          \<or> (case get_prop v ''topic'' of None \<Rightarrow> True | Some x \<Rightarrow> \<not> truthy x))"

text \<open>
  An excerpt of \<open>JSON.parse\<close> for the examples: the values of four texts. The examples
  apply it to these and to the text \<open>not json\<close>, on which \<open>JSON.parse\<close> throws.
\<close>

definition sample_JSON_parse :: "string \<Rightarrow> json option" where
  \<open>sample_JSON_parse = map_of
     [(''{"action":"subscribe","topic":42}'',
         JObj [(''action'', JStr ''subscribe''), (''topic'', JNum 42)]),
      (''{"action":"subscribe"}'', JObj [(''action'', JStr ''subscribe'')]),
      (''{"temp":21}'', JObj [(''temp'', JNum 21)]),
      (''null'', JNull)]\<close>

definition ex_client :: ws_client where
  "ex_client = \<lparr> readyState = 1, ws_subscriptions = [], sent = [] \<rparr>"

section \<open>Auxiliary definitions for the properties\<close>

text \<open>
  Every route that sets \<open>isPublished\<close> also records a non-empty \<open>shareableId\<close>; the
  store starts empty, and the routes that write a dashboard keep this.
\<close>

definition published_have_shareableId :: "storage \<Rightarrow> bool" where
  "published_have_shareableId st \<longleftrightarrow>
     (\<forall>i d. dashboards st i = Some d \<longrightarrow> isPublished d \<longrightarrow>
        (\<exists>sid. shareableId d = Some sid \<and> sid \<noteq> []))"

definition empty_storage :: storage where
  "empty_storage = \<lparr> resetTokens = Map.empty, dashboards = Map.empty,
     sharedDashboards = Map.empty, sessions = Map.empty, devices = Map.empty \<rparr>"



text \<open>A subscribe request held for the connect event, with the requests sent so far.\<close>

definition waiting :: "(string \<times> nat option) \<Rightarrow> (string \<times> nat option) list \<Rightarrow> mqtt_service \<Rightarrow> bool" where
  "waiting req issued s \<longleftrightarrow>
     client s \<and> \<not> isConnected s \<and> req \<in> set (once_connect s) \<and> broker_subscribes s = issued"

text \<open>
  Strings of decimal digits; byte streams on which the rejection loop of \<open>secureRandom\<close>
  is left from every position, for both pairs of bounds the generator uses; and the
  final padding or truncation of \<open>generateTopicId\<close>.
\<close>

definition decimal :: "string \<Rightarrow> bool" where
  "decimal s \<longleftrightarrow> set s \<subseteq> set ''0123456789''"

definition sampler_halts :: "(nat \<Rightarrow> 8 word) \<Rightarrow> bool" where
  "sampler_halts src \<longleftrightarrow>
     (\<forall>pos. secureRandom 10 99 src pos \<noteq> None \<and> secureRandom 1000 9999 src pos \<noteq> None)"

definition fit15 :: "string \<Rightarrow> string" where
  "fit15 s = (if length s > 15 then take 15 s else if length s < 15 then padStart 15 (CHR ''0'') s else s)"

text \<open>
  An environment in which the generator repeats itself: the clock stays at one
  millisecond, the first 2801 random bytes are all \<open>0x5f\<close>, and the next eight are
  \<open>17 00 00 00 00 07 41 50\<close>. \<open>stuck_need a\<close> is the number of bytes the loop draws from
  attempt \<open>a\<close> on.
\<close>

definition stuck_clock :: "nat \<Rightarrow> nat" where
  "stuck_clock k = 1700000000074"

definition stuck_entropy :: "nat \<Rightarrow> 8 word" where
  "stuck_entropy i =
     (if i < 2801 then 95
      else if i = 2801 then 23
      else if i = 2806 then 7
      else if i = 2807 then 65
      else if i = 2808 then 80
      else 0)"

definition stuck_env :: gen_env where
  "stuck_env = \<lparr> clock = stuck_clock, ticks = 0, entropy = stuck_entropy, drawn = 0 \<rparr>"

definition stuck_id :: string where
  "stuck_id = ''170000000007415''"

definition stuck_need :: "nat \<Rightarrow> nat" where
  "stuck_need a = (if 100 \<le> a then 3 * (1000 - a) else (100 - a) + 2700)"

section \<open>Example data\<close>

definition ex_widget :: json where
  "ex_widget = JObj [(''id'', JStr ''w1''), (''type'', JStr ''gauge''),
     (''x'', JNum 0), (''y'', JNum 0), (''w'', JNum 4), (''h'', JNum 3)]"

definition ex_dashboard :: dashboard where
  "ex_dashboard = \<lparr> dash_id = ''170000000000012'', name = ''Plant'', widgets = [ex_widget],
     layout = None, layouts = None, deviceCount = None, stats = None,
     userId = ''anonymous'', createdAt = 1700000000000, updatedAt = 1700000000000,
     isPublished = False, publishedAt = None, shareableLink = None, sharePassword = None,
     shareableId = None \<rparr>"

definition ex_storage :: storage where
  "ex_storage = empty_storage \<lparr> dashboards := [''170000000000012'' \<mapsto> ex_dashboard] \<rparr>"

definition ex_publish_body :: publish_body where
  "ex_publish_body = \<lparr> pb_id = ''170000000000012'', pb_name = ''Plant'', pb_widgets = [ex_widget],
     pb_layout = None, pb_layouts = None, pb_deviceCount = None, pb_stats = None,
     pb_isPublished = None, pb_shareableLink = None, pb_sharePassword = None,
     pb_shareableId = None \<rparr>"

definition ex_publish_env :: publish_env where
  "ex_publish_env = \<lparr> pe_now = 1700000001000, pe_publishedAt = 1700000001000,
     pe_updatedAt = 1700000001001, pe_random_id = ''k3j9x2m1q'', pe_random_password = ''A1B2C3'',
     pe_frontend_url = None \<rparr>"

definition ex_shareableId :: string where
  "ex_shareableId = ''shared-1700000001000-k3j9x2m1q''"

definition ex_published_dashboard :: dashboard where
  "ex_published_dashboard = ex_dashboard \<lparr> layout := Some (JObj []), isPublished := True,
     publishedAt := Some 1700000001000,
     shareableLink := Some ''http://localhost:3000/shared/shared-1700000001000-k3j9x2m1q'',
     sharePassword := Some ''A1B2C3'', shareableId := Some ex_shareableId,
     updatedAt := 1700000001001 \<rparr>"

definition ex_snapshot :: shared_dashboard where
  "ex_snapshot = \<lparr> panelId = ex_shareableId, shared_widgets = [ex_widget],
     shared_layouts = JObj [], title = ''Plant'',
     shared_stats = JObj [(''totalWidgets'', JNum 1), (''gridUtilization'', JNum 0)],
     shared_sharePassword = ''A1B2C3'', shared_publishedAt = 1700000001000,
     isShared = True, originalDashboardId = ''170000000000012'' \<rparr>"

definition ex_published :: storage where
  "ex_published = empty_storage \<lparr> dashboards := [''170000000000012'' \<mapsto> ex_published_dashboard],
     sharedDashboards := [ex_shareableId \<mapsto> ex_snapshot] \<rparr>"

definition ex_publish_env2 :: publish_env where
  "ex_publish_env2 = \<lparr> pe_now = 1700000003000, pe_publishedAt = 1700000003000,
     pe_updatedAt = 1700000003001, pe_random_id = ''z8y7x6w5v'', pe_random_password = ''D4E5F6'',
     pe_frontend_url = None \<rparr>"

definition ex_shareableId2 :: string where
  "ex_shareableId2 = ''shared-1700000003000-z8y7x6w5v''"

definition ex_republished :: storage where
  "ex_republished = snd (publish_dashboard None (Inr ex_publish_body) ex_publish_env2 ex_published)"

definition ex_save_body :: save_body where
  "ex_save_body = \<lparr> sb_id = None, sb_name = ''Plant v2'', sb_widgets = [],
     sb_layout = None, sb_deviceCount = None, sb_stats = None \<rparr>"








definition ex_mqtt_config :: mqtt_config where
  "ex_mqtt_config = \<lparr> subscribeTopics = [''#''], qos = 0 \<rparr>"

definition ex_mqtt_service :: mqtt_service where
  "ex_mqtt_service = \<lparr> client = False, isConnected = False, latestByTopic = Map.empty,
     subscriptions = [], once_connect = [], broker_subscribes = [], broker_unsubscribes = [],
     broker_publishes = [] \<rparr>"

definition ex_events :: "mqtt_event list" where
  "ex_events = [OnError ''ECONNREFUSED'', OnClose, OnReconnect, Subscribe ''plant/2/temp'' (Some 1)]"



definition ex_gen_env :: gen_env where
  "ex_gen_env = \<lparr> clock = (\<lambda>k. 1700000000000 + k), ticks = 0, entropy = (\<lambda>i. 0), drawn = 0 \<rparr>"

section \<open>Properties\<close>

lemmas ex_defs = ex_widget_def ex_dashboard_def ex_storage_def ex_publish_body_def
  ex_publish_env_def ex_shareableId_def ex_published_def ex_save_body_def empty_storage_def
  ex_published_dashboard_def ex_snapshot_def

lemmas route_defs = publish_dashboard_def update_dashboard_def delete_dashboard_def
  get_shared_dashboard_def new_shareableId_def requester_def str_or_def js_or_def spread_def
  Let_def

lemmas toString_eval = toString.simps digit_char_def

subsection \<open>Shared snapshots\<close>

lemma new_shareableId_nonempty: "new_shareableId env \<noteq> []"
  by (simp add: new_shareableId_def)

lemma empty_storage_share_ids: "published_have_shareableId empty_storage"
  by (simp add: published_have_shareableId_def empty_storage_def)

lemma publish_keeps_share_ids:
  "published_have_shareableId st \<Longrightarrow>
     published_have_shareableId (snd (publish_dashboard u body env st))"
  by (auto simp: published_have_shareableId_def publish_dashboard_def Let_def
        new_shareableId_nonempty split: sum.splits option.splits)

lemma update_keeps_share_ids:
  "published_have_shareableId st \<Longrightarrow>
     published_have_shareableId (snd (update_dashboard i u body now st))"
  by (auto simp: published_have_shareableId_def update_dashboard_def Let_def
        split: sum.splits option.splits)

lemma delete_keeps_share_ids:
  "published_have_shareableId st \<Longrightarrow>
     published_have_shareableId (snd (delete_dashboard i u st))"
  by (auto simp: published_have_shareableId_def delete_dashboard_def Let_def
        split: option.splits)

lemma save_keeps_share_ids:
  assumes "published_have_shareableId st"
    and "save_dashboard u body created updated usedIds e st = Some (r, usedIds1, e1, st1)"
  shows "published_have_shareableId st1"
  using assms
  by (auto simp: published_have_shareableId_def save_dashboard_def Let_def
        split: sum.splits option.splits if_splits)

lemma update_leaves_shared:
  "sharedDashboards (snd (update_dashboard i u body now st)) = sharedDashboards st"
  by (simp add: update_dashboard_def Let_def split: sum.splits option.splits)

lemma ex_publish_result:
  "publish_dashboard None (Inr ex_publish_body) ex_publish_env ex_storage
     = (Inr ex_published_dashboard, ex_published)"
  by (simp add: ex_defs route_defs toString_eval)

lemma ex_published_lookup:
  "dashboards ex_published ''170000000000012'' = Some ex_published_dashboard"
  "sharedDashboards ex_published ex_shareableId = Some ex_snapshot"
  by (simp_all add: ex_published_def)

lemma ex_published_share_ids: "published_have_shareableId ex_published"
  by (simp add: published_have_shareableId_def ex_published_def ex_published_dashboard_def
        ex_shareableId_def)

lemma ex_storage_share_ids: "published_have_shareableId ex_storage"
  by (simp add: published_have_shareableId_def ex_storage_def ex_dashboard_def)

text \<open>
  C3. A publish request by the owner of a stored dashboard succeeds; the dashboard it
  stores takes its widgets from the request, and the snapshot stored under the new
  shareable id has exactly those widgets. No update request afterwards, whether it
  succeeds or is refused, changes any entry of the shared-dashboard map, so the snapshot
  keeps its widgets and every other field.
\<close>

theorem publish_snapshot_survives_update:
  assumes "dashboards st (pb_id v) = Some d" and "userId d = requester u"
  shows "\<exists>pd snap st1.
           publish_dashboard u (Inr v) env st = (Inr pd, st1)
         \<and> dashboards st1 (pb_id v) = Some pd
         \<and> widgets pd = pb_widgets v
         \<and> shareableId pd = Some (new_shareableId env)
         \<and> sharedDashboards st1 (new_shareableId env) = Some snap
         \<and> shared_widgets snap = widgets pd
         \<and> originalDashboardId snap = pb_id v
         \<and> sharedDashboards (snd (update_dashboard i u' b now st1)) = sharedDashboards st1
         \<and> sharedDashboards (snd (update_dashboard i u' b now st1)) (new_shareableId env) = Some snap"
  using assms by (simp add: publish_dashboard_def Let_def update_leaves_shared)

theorem publish_snapshot_survives_update_witness:
  "dashboards ex_storage (pb_id ex_publish_body) = Some ex_dashboard
   \<and> userId ex_dashboard = requester None
   \<and> publish_dashboard None (Inr ex_publish_body) ex_publish_env ex_storage
        = (Inr ex_published_dashboard, ex_published)
   \<and> widgets ex_published_dashboard = [ex_widget]
   \<and> sharedDashboards ex_published ex_shareableId = Some ex_snapshot
   \<and> shared_widgets ex_snapshot = [ex_widget]
   \<and> widgets (projr (fst (update_dashboard ''170000000000012'' None (Inr ex_save_body)
                 1700000002000 ex_published))) = []
   \<and> sharedDashboards (snd (update_dashboard ''170000000000012'' None (Inr ex_save_body)
         1700000002000 ex_published)) ex_shareableId = Some ex_snapshot"
proof -
  have h1: "dashboards ex_storage (pb_id ex_publish_body) = Some ex_dashboard"
    by (simp add: ex_storage_def ex_publish_body_def)
  have h2: "userId ex_dashboard = requester None"
    by (simp add: ex_dashboard_def requester_def str_or_def)
  have upd: "widgets (projr (fst (update_dashboard ''170000000000012'' None (Inr ex_save_body)
                 1700000002000 ex_published))) = []"
    by (simp add: update_dashboard_def ex_published_def ex_published_dashboard_def
          ex_dashboard_def ex_save_body_def requester_def str_or_def Let_def)
  have new_id: "new_shareableId ex_publish_env = ex_shareableId"
    by (simp add: new_shareableId_def ex_publish_env_def ex_shareableId_def toString_eval)
  have w1: "widgets ex_published_dashboard = [ex_widget]"
    by (simp add: ex_published_dashboard_def ex_dashboard_def)
  have w2: "shared_widgets ex_snapshot = [ex_widget]"
    by (simp add: ex_snapshot_def)
  have frozen: "sharedDashboards (snd (update_dashboard ''170000000000012'' None (Inr ex_save_body)
         1700000002000 ex_published)) ex_shareableId = Some ex_snapshot"
    using publish_snapshot_survives_update [OF h1 h2, of ex_publish_env "''170000000000012''"
      None "Inr ex_save_body" 1700000002000]
    by (simp add: ex_publish_result ex_published_lookup new_id)
  show ?thesis
    by (intro conjI h1 h2 upd w1 w2 frozen ex_publish_result ex_published_lookup)
qed

lemma ex_republished_dashboard:
  "\<exists>d. dashboards ex_republished ''170000000000012'' = Some d
      \<and> userId d = ''anonymous'' \<and> isPublished d \<and> shareableId d = Some ex_shareableId2"
  by (simp add: ex_republished_def ex_publish_env2_def ex_shareableId2_def ex_defs route_defs
        toString_eval)

lemma ex_republished_shared:
  "sharedDashboards ex_republished ex_shareableId = Some ex_snapshot"
  "sharedDashboards ex_republished ex_shareableId2 \<noteq> None"
  by (simp_all add: ex_republished_def ex_publish_env2_def ex_shareableId2_def ex_defs route_defs
        toString_eval)

text \<open>
  C6 as stated fails. The dashboard \<open>170000000000012\<close> is published twice; each
  publish stores a snapshot under a new shareable id, and the dashboard records the
  second. Deleting the dashboard succeeds and removes the second snapshot, while the
  first, whose \<open>originalDashboardId\<close> is the deleted dashboard, stays in the
  shared-dashboard map.
\<close>

theorem delete_leaves_earlier_snapshot:
  "ex_published = snd (publish_dashboard None (Inr ex_publish_body) ex_publish_env ex_storage)
   \<and> ex_republished
        = snd (publish_dashboard None (Inr ex_publish_body) ex_publish_env2 ex_published)
   \<and> fst (delete_dashboard ''170000000000012'' None ex_republished)
        = Inr ''Dashboard deleted successfully''
   \<and> dashboards (snd (delete_dashboard ''170000000000012'' None ex_republished))
        ''170000000000012'' = None
   \<and> sharedDashboards (snd (delete_dashboard ''170000000000012'' None ex_republished))
        ex_shareableId2 = None
   \<and> sharedDashboards (snd (delete_dashboard ''170000000000012'' None ex_republished))
        ex_shareableId = Some ex_snapshot
   \<and> originalDashboardId ex_snapshot = ''170000000000012''"
proof -
  obtain d where d: "dashboards ex_republished ''170000000000012'' = Some d"
    and u: "userId d = ''anonymous''" and p: "isPublished d"
    and sid: "shareableId d = Some ex_shareableId2"
    using ex_republished_dashboard by blast
  have ne: "ex_shareableId2 \<noteq> []" "ex_shareableId \<noteq> ex_shareableId2"
    by (simp_all add: ex_shareableId_def ex_shareableId2_def)
  have del: "delete_dashboard ''170000000000012'' None ex_republished
      = (Inr ''Dashboard deleted successfully'',
         ex_republished\<lparr>dashboards := (dashboards ex_republished)(''170000000000012'' := None),
            sharedDashboards := (sharedDashboards ex_republished)(ex_shareableId2 := None)\<rparr>)"
    using d u p sid ne(1) by (simp add: delete_dashboard_def requester_def str_or_def Let_def)
  have orig: "originalDashboardId ex_snapshot = ''170000000000012''"
    by (simp add: ex_snapshot_def)
  show ?thesis
    using ne(2) by (simp add: del ex_republished_shared ex_publish_result orig)
       (simp add: ex_republished_def)
qed

text \<open>
  C6, amended. A delete request by the owner of a stored dashboard succeeds. If the
  dashboard is published, the entry of the shared-dashboard map under the shareable id
  the dashboard records is removed and every other entry stays, a snapshot stored by an
  earlier publish of the same dashboard among them; if it is not published, the
  shared-dashboard map is the same map as before.
\<close>

theorem delete_dashboard_shared_effect:
  assumes "published_have_shareableId st"
    and "dashboards st i = Some d" and "userId d = requester u"
  shows "fst (delete_dashboard i u st) = Inr ''Dashboard deleted successfully''
       \<and> dashboards (snd (delete_dashboard i u st)) = (dashboards st)(i := None)
       \<and> (isPublished d \<longrightarrow>
            (\<exists>sid. shareableId d = Some sid
               \<and> sharedDashboards (snd (delete_dashboard i u st)) sid = None
               \<and> sharedDashboards (snd (delete_dashboard i u st)) = (sharedDashboards st)(sid := None)))
       \<and> (\<not> isPublished d \<longrightarrow>
            sharedDashboards (snd (delete_dashboard i u st)) = sharedDashboards st)"
proof -
  from assms(1,2) have pub: "isPublished d \<Longrightarrow> \<exists>sid. shareableId d = Some sid \<and> sid \<noteq> []"
    unfolding published_have_shareableId_def by blast
  show ?thesis
    using assms(2,3) pub
    by (auto simp: delete_dashboard_def Let_def split: option.splits)
qed

theorem delete_dashboard_shared_effect_witness:
  "published_have_shareableId ex_published
   \<and> dashboards ex_published ''170000000000012'' = Some ex_published_dashboard
   \<and> userId ex_published_dashboard = requester None
   \<and> isPublished ex_published_dashboard
   \<and> sharedDashboards ex_published ex_shareableId = Some ex_snapshot
   \<and> fst (delete_dashboard ''170000000000012'' None ex_published) = Inr ''Dashboard deleted successfully''
   \<and> sharedDashboards (snd (delete_dashboard ''170000000000012'' None ex_published)) ex_shareableId = None
   \<and> published_have_shareableId ex_storage
   \<and> dashboards ex_storage ''170000000000012'' = Some ex_dashboard
   \<and> \<not> isPublished ex_dashboard
   \<and> sharedDashboards (snd (delete_dashboard ''170000000000012'' None ex_storage)) = sharedDashboards ex_storage"
proof -
  have u1: "userId ex_published_dashboard = requester None"
    by (simp add: ex_published_dashboard_def ex_dashboard_def requester_def str_or_def)
  have u2: "userId ex_dashboard = requester None"
    by (simp add: ex_dashboard_def requester_def str_or_def)
  have d2: "dashboards ex_storage ''170000000000012'' = Some ex_dashboard"
    by (simp add: ex_storage_def)
  have p1: "isPublished ex_published_dashboard" "shareableId ex_published_dashboard = Some ex_shareableId"
    by (simp_all add: ex_published_dashboard_def)
  have p2: "\<not> isPublished ex_dashboard"
    by (simp add: ex_dashboard_def)
  from delete_dashboard_shared_effect [OF ex_published_share_ids ex_published_lookup(1) u1]
    delete_dashboard_shared_effect [OF ex_storage_share_ids d2 u2]
  show ?thesis
    using u1 d2 p1 p2 by (simp add: ex_published_share_ids ex_storage_share_ids ex_published_lookup)
qed

text \<open>
  C10. For a stored shared dashboard, a read without a password returns the stored
  snapshot itself, share password included. The answer is 401 exactly when a non-empty
  password is supplied that differs from the stored one; every other read of a stored
  snapshot returns the snapshot.
\<close>

theorem shared_read_without_password:
  assumes "sharedDashboards st sid = Some d"
  shows "get_shared_dashboard sid None st = Inr d
       \<and> (get_shared_dashboard sid pw st = Inl (401, ''Invalid access password'')
            \<longleftrightarrow> (\<exists>p. pw = Some p \<and> p \<noteq> [] \<and> p \<noteq> shared_sharePassword d))
       \<and> (get_shared_dashboard sid pw st \<noteq> Inl (401, ''Invalid access password'')
            \<longrightarrow> get_shared_dashboard sid pw st = Inr d)"
  using assms by (auto simp: get_shared_dashboard_def split: option.splits)

theorem shared_read_without_password_witness:
  "sharedDashboards ex_published ex_shareableId = Some ex_snapshot
   \<and> shared_sharePassword ex_snapshot = ''A1B2C3''
   \<and> get_shared_dashboard ex_shareableId None ex_published = Inr ex_snapshot
   \<and> get_shared_dashboard ex_shareableId (Some ''A1B2C3'') ex_published = Inr ex_snapshot
   \<and> get_shared_dashboard ex_shareableId (Some []) ex_published = Inr ex_snapshot
   \<and> get_shared_dashboard ex_shareableId (Some ''GUESS1'') ex_published
        = Inl (401, ''Invalid access password'')"
  using shared_read_without_password [OF ex_published_lookup(2), of "Some ''GUESS1''"]
    shared_read_without_password [OF ex_published_lookup(2), of "Some ''A1B2C3''"]
    shared_read_without_password [OF ex_published_lookup(2), of "Some []"]
  by (simp add: ex_published_lookup ex_snapshot_def)

subsection \<open>Reset tokens\<close>










subsection \<open>Deferred subscriptions\<close>

lemma subscribe_connected:
  "isConnected s \<Longrightarrow> client s \<Longrightarrow>
     subscribe t opts s = s\<lparr>broker_subscribes := broker_subscribes s @ [(t, opts)]\<rparr>"
  by (simp add: subscribe_def)

lemma fold_subscribe_connected:
  "isConnected s \<Longrightarrow> client s \<Longrightarrow>
     fold (\<lambda>(t, opts). subscribe t opts) xs s
       = s\<lparr>broker_subscribes := broker_subscribes s @ xs\<rparr>"
proof (induction xs arbitrary: s)
  case Nil
  then show ?case by simp
next
  case (Cons x xs)
  obtain t opts where x: "x = (t, opts)" by (cases x)
  have "fold (\<lambda>(t, opts). subscribe t opts) (x # xs) s
      = fold (\<lambda>(t, opts). subscribe t opts) xs (s\<lparr>broker_subscribes := broker_subscribes s @ [x]\<rparr>)"
    using Cons.prems by (simp add: x subscribe_connected)
  also have "\<dots> = s\<lparr>broker_subscribes := broker_subscribes s @ x # xs\<rparr>"
    using Cons.prems by (subst Cons.IH) simp_all
  finally show ?case .
qed

lemma fold_subscribe_config:
  "isConnected s \<Longrightarrow> client s \<Longrightarrow>
     fold (\<lambda>t. subscribe t q) ts s
       = s\<lparr>broker_subscribes := broker_subscribes s @ map (\<lambda>t. (t, q)) ts\<rparr>"
proof (induction ts arbitrary: s)
  case Nil
  then show ?case by simp
next
  case (Cons t ts)
  have "fold (\<lambda>t. subscribe t q) (t # ts) s
      = fold (\<lambda>t. subscribe t q) ts (s\<lparr>broker_subscribes := broker_subscribes s @ [(t, q)]\<rparr>)"
    using Cons.prems by (simp add: subscribe_connected)
  also have "\<dots> = s\<lparr>broker_subscribes := broker_subscribes s @ map (\<lambda>t. (t, q)) (t # ts)\<rparr>"
    using Cons.prems by (subst Cons.IH) simp_all
  finally show ?case .
qed

lemma on_connect_replays:
  assumes "client s"
  shows "on_connect cfg s = s\<lparr> isConnected := True, once_connect := [],
           broker_subscribes := broker_subscribes s
              @ map (\<lambda>t. (t, Some (qos cfg))) (subscribeTopics cfg) @ once_connect s \<rparr>"
  using assms
  by (simp add: on_connect_def Let_def fold_subscribe_config fold_subscribe_connected)

lemma waiting_step:
  "waiting req issued s \<Longrightarrow> ev \<noteq> Shutdown \<Longrightarrow> ev \<noteq> OnConnect \<Longrightarrow>
     waiting req issued (mqtt_step cfg P ev s)"
  by (cases ev)
     (auto simp: waiting_def connect_def subscribe_def subscribe_callback_def unsubscribe_def
        unsubscribe_callback_def publish_def on_close_def on_message_def Let_def
        split: option.splits)

lemma waiting_run:
  "waiting req issued s \<Longrightarrow> Shutdown \<notin> set evs \<Longrightarrow> OnConnect \<notin> set evs \<Longrightarrow>
     waiting req issued (mqtt_run cfg P evs s)"
  unfolding mqtt_run_def
proof (induction evs arbitrary: s)
  case Nil
  then show ?case by simp
next
  case (Cons ev evs)
  from Cons.prems have "waiting req issued (mqtt_step cfg P ev s)"
    by (intro waiting_step) auto
  with Cons show ?case by simp
qed

lemma subscribe_defers:
  "\<not> isConnected s \<Longrightarrow> waiting (t, opts) (broker_subscribes s) (subscribe t opts s)"
  by (simp add: waiting_def subscribe_def connect_def Let_def)

text \<open>
  C7. A subscribe request made while the service is not connected is not sent to the
  broker; it is held as a once-listener of the client's connect event. Whatever happens
  next, short of a shutdown or the connect itself, the request stays held and nothing
  is sent. At the connect event the broker is asked for the configured topics and then
  for every held request, this one among them, and no held request remains.
\<close>

theorem deferred_subscribe_replayed:
  assumes "\<not> isConnected s" and "Shutdown \<notin> set evs" and "OnConnect \<notin> set evs"
  shows "(t, opts) \<in> set (once_connect (subscribe t opts s))
       \<and> broker_subscribes (subscribe t opts s) = broker_subscribes s
       \<and> (t, opts) \<in> set (once_connect (mqtt_run cfg P evs (subscribe t opts s)))
       \<and> broker_subscribes (mqtt_run cfg P evs (subscribe t opts s)) = broker_subscribes s
       \<and> broker_subscribes (mqtt_step cfg P OnConnect (mqtt_run cfg P evs (subscribe t opts s)))
           = broker_subscribes s @ map (\<lambda>t. (t, Some (qos cfg))) (subscribeTopics cfg)
               @ once_connect (mqtt_run cfg P evs (subscribe t opts s))
       \<and> (t, opts) \<in> set (broker_subscribes
             (mqtt_step cfg P OnConnect (mqtt_run cfg P evs (subscribe t opts s))))
       \<and> once_connect (mqtt_step cfg P OnConnect (mqtt_run cfg P evs (subscribe t opts s))) = []
       \<and> isConnected (mqtt_step cfg P OnConnect (mqtt_run cfg P evs (subscribe t opts s)))"
proof -
  let ?s1 = "subscribe t opts s"
  let ?s2 = "mqtt_run cfg P evs ?s1"
  have w1: "waiting (t, opts) (broker_subscribes s) ?s1"
    using assms(1) by (rule subscribe_defers)
  have w2: "waiting (t, opts) (broker_subscribes s) ?s2"
    using w1 assms(2,3) by (rule waiting_run)
  have c2: "client ?s2" using w2 by (simp add: waiting_def)
  have s3: "mqtt_step cfg P OnConnect ?s2 = ?s2\<lparr> isConnected := True, once_connect := [],
           broker_subscribes := broker_subscribes ?s2
              @ map (\<lambda>t. (t, Some (qos cfg))) (subscribeTopics cfg) @ once_connect ?s2 \<rparr>"
    using c2 by (simp add: on_connect_replays)
  show ?thesis
    using w1 w2 unfolding s3 by (simp add: waiting_def)
qed

theorem deferred_subscribe_replayed_witness:
  "\<not> isConnected ex_mqtt_service
   \<and> Shutdown \<notin> set ex_events \<and> OnConnect \<notin> set ex_events
   \<and> broker_subscribes (mqtt_run ex_mqtt_config sample_JSON_parse ex_events
        (subscribe ''plant/1/temp'' None ex_mqtt_service)) = []
   \<and> broker_subscribes (mqtt_step ex_mqtt_config sample_JSON_parse OnConnect
        (mqtt_run ex_mqtt_config sample_JSON_parse ex_events
           (subscribe ''plant/1/temp'' None ex_mqtt_service)))
       = [(''#'', Some 0), (''plant/1/temp'', None), (''plant/2/temp'', Some 1)]"
proof -
  have h1: "\<not> isConnected ex_mqtt_service" by (simp add: ex_mqtt_service_def)
  have h2: "Shutdown \<notin> set ex_events" and h3: "OnConnect \<notin> set ex_events"
    by (simp_all add: ex_events_def)
  have pending: "once_connect (mqtt_run ex_mqtt_config sample_JSON_parse ex_events
        (subscribe ''plant/1/temp'' None ex_mqtt_service))
      = [(''plant/1/temp'', None), (''plant/2/temp'', Some 1)]"
    by (simp add: mqtt_run_def ex_events_def subscribe_def connect_def on_close_def
          ex_mqtt_service_def Let_def)
  have cfg: "subscribeTopics ex_mqtt_config = [''#'']" "qos ex_mqtt_config = 0"
    by (simp_all add: ex_mqtt_config_def)
  have none_yet: "broker_subscribes ex_mqtt_service = []" by (simp add: ex_mqtt_service_def)
  from deferred_subscribe_replayed [OF h1 h2 h3, of "''plant/1/temp''" None ex_mqtt_config
      sample_JSON_parse]
  show ?thesis
    using h1 h2 h3 by (simp only: pending cfg none_yet) simp
qed

subsection \<open>Fan-out and control messages\<close>




text \<open>
  C5. The handler of an inbound broker message has no failing branch: it returns a
  record for every topic, payload and parser outcome. The record's data is the parsed
  value when the payload parses and the payload string itself when it does not; its raw
  field is the payload string in both cases; and the cache maps the topic to this
  record afterwards, whatever it held before.
\<close>

theorem inbound_message_record:
  "fst (on_message P t payload now s)
     = \<lparr> topic = t, data = (case P payload of Some v \<Rightarrow> v | None \<Rightarrow> JStr payload),
         raw = payload, receivedAt = now \<rparr>
   \<and> latestByTopic (snd (on_message P t payload now s))
     = (latestByTopic s)(t \<mapsto> fst (on_message P t payload now s))"
  by (simp add: on_message_def Let_def)

theorem inbound_message_record_witness:
  \<open>sample_JSON_parse ''not json'' = None
   \<and> data (fst (on_message sample_JSON_parse ''plant/1/temp'' ''not json'' 1700000000000
        ex_mqtt_service)) = JStr ''not json''
   \<and> raw (fst (on_message sample_JSON_parse ''plant/1/temp'' ''not json'' 1700000000000
        ex_mqtt_service)) = ''not json''
   \<and> sample_JSON_parse ''{"temp":21}'' = Some (JObj [(''temp'', JNum 21)])
   \<and> data (fst (on_message sample_JSON_parse ''plant/1/temp'' ''{"temp":21}'' 1700000000000
        ex_mqtt_service)) = JObj [(''temp'', JNum 21)]\<close>
  using inbound_message_record [of sample_JSON_parse "''plant/1/temp''" "''not json''"
      1700000000000 ex_mqtt_service]
    inbound_message_record [of sample_JSON_parse "''plant/1/temp''" \<open>''{"temp":21}''\<close>
      1700000000000 ex_mqtt_service]
  by (simp add: sample_JSON_parse_def)

text \<open>
  C9 as stated fails. The text \<open>{"action":"subscribe","topic":42}\<close> is JSON but not a
  control message, since its topic is not a string; the handler nevertheless adds \<open>42\<close>
  to the subscription set of a connection that had none.
\<close>

theorem malformed_message_changes_subscriptions:
  \<open>malformed sample_JSON_parse ''{"action":"subscribe","topic":42}''
   \<and> ws_subscriptions ex_client = []
   \<and> ws_subscriptions
        (ws_on_message sample_JSON_parse ''{"action":"subscribe","topic":42}'' ex_client)
       = [JNum 42]\<close>
  by (simp add: malformed_def control_message_def sample_JSON_parse_def ws_on_message_def
        guarded_def Set_add_def Set_has_def ex_client_def Let_def)

text \<open>
  C9, amended. A message whose text is not JSON, whose value is \<open>null\<close>, whose action is
  neither \<open>subscribe\<close> nor \<open>unsubscribe\<close>, or whose topic is absent or falsy leaves the
  connection as it was: same subscription set, nothing sent, same ready state. Every
  other message is acted on, whether or not its topic is a string: the Set's \<open>add\<close>
  (for \<open>subscribe\<close>) or \<open>delete\<close> (for \<open>unsubscribe\<close>) is applied to the subscription set
  with the topic value, and nothing else of the connection changes. A malformed message
  that is acted on is one whose topic is not a string.
\<close>

theorem ignored_message_leaves_connection:
  "(ignored P msg \<longrightarrow> ws_on_message P msg ws = ws)
   \<and> (\<not> ignored P msg \<longrightarrow>
        (\<exists>v x. P msg = Some v \<and> get_prop v ''topic'' = Some x \<and> truthy x
           \<and> ((get_prop v ''action'' = Some (JStr ''subscribe'')
                  \<and> ws_on_message P msg ws
                      = ws\<lparr>ws_subscriptions := Set_add x (ws_subscriptions ws)\<rparr>)
               \<or> (get_prop v ''action'' = Some (JStr ''unsubscribe'')
                  \<and> ws_on_message P msg ws
                      = ws\<lparr>ws_subscriptions := Set_delete x (ws_subscriptions ws)\<rparr>))))
   \<and> (malformed P msg \<and> \<not> ignored P msg \<longrightarrow>
        (\<exists>v x. P msg = Some v \<and> get_prop v ''topic'' = Some x \<and> (\<forall>t. x \<noteq> JStr t)))"
proof -
  have a: "ws_on_message P msg ws = ws" if "ignored P msg"
    using that
    by (auto simp: ignored_def ws_on_message_def guarded_def Let_def
          split: option.splits json.splits)
  have b: "\<exists>v x. P msg = Some v \<and> get_prop v ''topic'' = Some x \<and> truthy x
           \<and> ((get_prop v ''action'' = Some (JStr ''subscribe'')
                  \<and> ws_on_message P msg ws
                      = ws\<lparr>ws_subscriptions := Set_add x (ws_subscriptions ws)\<rparr>)
               \<or> (get_prop v ''action'' = Some (JStr ''unsubscribe'')
                  \<and> ws_on_message P msg ws
                      = ws\<lparr>ws_subscriptions := Set_delete x (ws_subscriptions ws)\<rparr>))"
    if "\<not> ignored P msg"
  proof -
    from that obtain v x where v: "P msg = Some v" and nn: "v \<noteq> JNull"
      and x: "get_prop v ''topic'' = Some x" and tx: "truthy x"
      and act: "get_prop v ''action'' = Some (JStr ''subscribe'')
                \<or> get_prop v ''action'' = Some (JStr ''unsubscribe'')"
      by (auto simp: ignored_def split: option.splits)
    from act show ?thesis
    proof
      assume s: "get_prop v ''action'' = Some (JStr ''subscribe'')"
      with v nn x tx have "ws_on_message P msg ws
          = ws\<lparr>ws_subscriptions := Set_add x (ws_subscriptions ws)\<rparr>"
        by (cases v) (simp_all add: ws_on_message_def guarded_def Let_def)
      with v x tx s show ?thesis by blast
    next
      assume u: "get_prop v ''action'' = Some (JStr ''unsubscribe'')"
      with v nn x tx have "ws_on_message P msg ws
          = ws\<lparr>ws_subscriptions := Set_delete x (ws_subscriptions ws)\<rparr>"
        by (cases v) (simp_all add: ws_on_message_def guarded_def Let_def)
      with v x tx u show ?thesis by blast
    qed
  qed
  have c: "\<exists>v x. P msg = Some v \<and> get_prop v ''topic'' = Some x \<and> (\<forall>t. x \<noteq> JStr t)"
    if "malformed P msg" and "\<not> ignored P msg"
    using that
    by (auto simp: ignored_def malformed_def control_message_def
          split: option.splits json.splits)
  from a b c show ?thesis by blast
qed

theorem ignored_message_leaves_connection_witness:
  \<open>ignored sample_JSON_parse ''not json''
   \<and> ws_on_message sample_JSON_parse ''not json'' ex_client = ex_client
   \<and> ignored sample_JSON_parse ''null''
   \<and> ws_on_message sample_JSON_parse ''null'' ex_client = ex_client
   \<and> ignored sample_JSON_parse ''{"action":"subscribe"}''
   \<and> ws_on_message sample_JSON_parse ''{"action":"subscribe"}'' ex_client = ex_client
   \<and> malformed sample_JSON_parse ''{"action":"subscribe","topic":42}''
   \<and> \<not> ignored sample_JSON_parse ''{"action":"subscribe","topic":42}''
   \<and> ws_on_message sample_JSON_parse ''{"action":"subscribe","topic":42}'' ex_client
       = ex_client\<lparr>ws_subscriptions := Set_add (JNum 42) (ws_subscriptions ex_client)\<rparr>\<close>
  using ignored_message_leaves_connection [of sample_JSON_parse "''not json''" ex_client]
    ignored_message_leaves_connection [of sample_JSON_parse "''null''" ex_client]
    ignored_message_leaves_connection [of sample_JSON_parse \<open>''{"action":"subscribe"}''\<close> ex_client]
    ignored_message_leaves_connection
      [of sample_JSON_parse \<open>''{"action":"subscribe","topic":42}''\<close> ex_client]
  by (simp add: ignored_def malformed_def control_message_def sample_JSON_parse_def)

subsection \<open>Topic identifiers\<close>

lemma decimal_append [simp]: "decimal (a @ b) \<longleftrightarrow> decimal a \<and> decimal b"
  by (auto simp: decimal_def)

lemma decimal_take: "decimal s \<Longrightarrow> decimal (take n s)"
  by (auto simp: decimal_def dest: in_set_takeD)

lemma digit_char_decimal: "d < 10 \<Longrightarrow> decimal [digit_char d]"
proof -
  assume "d < 10"
  then have "''0123456789'' ! d \<in> set ''0123456789''"
    by (intro nth_mem) simp
  then show ?thesis by (simp add: decimal_def digit_char_def)
qed

lemma decimal_toString: "decimal (toString n)"
proof (induction n rule: toString.induct)
  case (1 n)
  show ?case
  proof (cases "n < 10")
    case True
    then show ?thesis by (subst toString.simps) (simp add: digit_char_decimal)
  next
    case False
    then have "decimal (toString (n div 10))" by (rule "1.IH")
    moreover have "decimal [digit_char (n mod 10)]" by (rule digit_char_decimal) simp
    ultimately show ?thesis using False by (subst toString.simps) simp
  qed
qed

lemma decimal_js_toString: "0 \<le> i \<Longrightarrow> decimal (js_toString i)"
  by (simp add: js_toString_def decimal_toString)

lemma bytesNeeded_90: "bytesNeeded 90 = 1"
  by (simp add: bytesNeeded.simps)

lemma bytesNeeded_9000: "bytesNeeded 9000 = 2"
  by (simp add: bytesNeeded.simps)

lemma randomValue_of_1: "randomValue_of (randomBytes src pos 1) = uint (src pos)"
  by (simp add: randomValue_of_def randomBytes_def shl8_def to_int32_def)

lemma to_int32_small: "0 \<le> x \<Longrightarrow> x < 2 ^ 31 \<Longrightarrow> to_int32 x = x"
  by (simp add: to_int32_def)

lemma uint_byte: "uint (b :: 8 word) < 256"
  using uint_bounded [of b] by simp

lemma randomValue_of_2:
  "randomValue_of (randomBytes src pos 2) = uint (src pos) * 256 + uint (src (pos + 1))"
proof -
  have two: "[0..<2] = [0, 1]" by (simp add: upt_rec)
  have "uint (src pos) * 256 < 2 ^ 31"
    using uint_byte [of "src pos"] by simp
  then have "shl8 (uint (src pos)) = uint (src pos) * 256"
    unfolding shl8_def by (intro to_int32_small) simp_all
  then show ?thesis
    by (simp add: randomValue_of_def randomBytes_def two shl8_def to_int32_def)
qed

lemma draw_until_accepts:
  assumes "draw_until src n m pos = Some y"
  shows "\<exists>q. fst y = randomValue_of (randomBytes src q n) \<and> fst y \<le> m"
  by (rule draw_until.raw_induct
        [where P = "\<lambda>src n m pos y. \<exists>q. fst y = randomValue_of (randomBytes src q n) \<and> fst y \<le> m",
         OF _ assms])
     (auto simp: Let_def split: if_splits)

lemma js_rem_nonneg: "0 \<le> a \<Longrightarrow> 0 < b \<Longrightarrow> js_rem a b = a mod b"
  by (cases "a = 0") (simp_all add: js_rem_def)

lemma secureRandom_10_99:
  assumes "secureRandom 10 99 src pos = Some (v, pos1)"
  shows "10 \<le> v \<and> v \<le> 99"
proof -
  from assms obtain y where y: "draw_until src 1 179 pos = Some y" and v: "v = 10 + js_rem (fst y) 90"
    by (auto simp: secureRandom_def bytesNeeded_90 Let_def split: option.splits)
  from draw_until_accepts [OF y] obtain q where "fst y = randomValue_of (randomBytes src q 1)"
    by blast
  then have "fst y = uint (src q)" by (simp only: randomValue_of_1)
  then have "0 \<le> fst y" by simp
  then have "js_rem (fst y) 90 = fst y mod 90" by (simp add: js_rem_nonneg)
  with v show ?thesis by simp
qed

lemma secureRandom_1000_9999:
  assumes "secureRandom 1000 9999 src pos = Some (v, pos1)"
  shows "1000 \<le> v \<and> v \<le> 9999"
proof -
  from assms obtain y where y: "draw_until src 2 62999 pos = Some y"
    and v: "v = 1000 + js_rem (fst y) 9000"
    by (auto simp: secureRandom_def bytesNeeded_9000 Let_def split: option.splits)
  from draw_until_accepts [OF y] obtain q where "fst y = randomValue_of (randomBytes src q 2)"
    by blast
  then have "fst y = uint (src q) * 256 + uint (src (q + 1))" by (simp only: randomValue_of_2)
  then have "0 \<le> fst y" by simp
  then have "js_rem (fst y) 9000 = fst y mod 9000" by (simp add: js_rem_nonneg)
  with v show ?thesis by simp
qed

lemma candidate_decimal:
  assumes "candidate a e = Some (s, e1)"
  shows "decimal s \<and> entropy e1 = entropy e"
proof -
  obtain now e0 where dn: "Date_now e = (now, e0)" by (cases "Date_now e")
  then have ent0: "entropy e0 = entropy e" by (auto simp: Date_now_def)
  from assms dn obtain r e2 where r: "secureRandom_env 10 99 e0 = Some (r, e2)"
    by (auto simp: candidate_def Let_def split: option.splits)
  then have r_ok: "0 \<le> r" and ent2: "entropy e2 = entropy e0"
    using secureRandom_10_99 [of "entropy e0" "drawn e0" r]
    by (auto simp: secureRandom_env_def split: option.splits)
  show ?thesis
  proof (cases "a > 100")
    case False
    with assms dn r have "s = toString now @ js_toString r" "e1 = e2"
      by (simp_all add: candidate_def Let_def)
    with r_ok ent0 ent2 show ?thesis
      by (simp add: decimal_toString decimal_js_toString)
  next
    case True
    with assms dn r obtain x where x: "secureRandom_env 1000 9999 e2 = Some (x, e1)"
      and s: "s = take 11 (toString now) @ js_toString x"
      by (auto simp: candidate_def Let_def split: option.splits)
    from x have "0 \<le> x" and "entropy e1 = entropy e2"
      using secureRandom_1000_9999 [of "entropy e2" "drawn e2" x]
      by (auto simp: secureRandom_env_def split: option.splits)
    with s ent0 ent2 show ?thesis
      by (simp add: decimal_toString decimal_js_toString decimal_take)
  qed
qed

lemma attempt_loop_decimal:
  "attempt_loop a usedIds e = Some (s, e1) \<Longrightarrow> decimal s \<and> entropy e1 = entropy e"
proof (induction a usedIds e rule: attempt_loop.induct)
  case (1 attempts usedIds e)
  from "1.prems" obtain c e0 where c: "candidate (attempts + 1) e = Some (c, e0)"
    by (subst (asm) attempt_loop.simps) (auto split: option.splits)
  note cd = candidate_decimal [OF c]
  show ?case
  proof (cases "c \<in> set usedIds \<and> attempts + 1 < 1000")
    case True
    with "1.prems" c have "attempt_loop (attempts + 1) usedIds e0 = Some (s, e1)"
      by (subst (asm) attempt_loop.simps) simp
    from "1.IH" [OF c refl True this] cd show ?thesis by simp
  next
    case False
    with "1.prems" c have "s = c" "e1 = e0"
      by (subst (asm) attempt_loop.simps, auto)+
    with cd show ?thesis by simp
  qed
qed

lemma toString_nonempty: "toString n \<noteq> []"
  by (subst toString.simps) simp

lemma hex_char_range: "d < 16 \<Longrightarrow> hex_char d \<in> set ''0123456789abcdef''"
  unfolding hex_char_def by (intro nth_mem) simp

lemma hex_pair_chars:
  "set [hex_char (unat b div 16), hex_char (unat b mod 16)] \<subseteq> set ''0123456789abcdef''"
  for b :: "8 word"
proof -
  have "unat b < 256" using unsigned_less [of b, where 'a = nat] by simp
  then have "unat b div 16 < 16" by simp
  then have "hex_char (unat b div 16) \<in> set ''0123456789abcdef''"
    and "hex_char (unat b mod 16) \<in> set ''0123456789abcdef''"
    by (intro hex_char_range, simp)+
  then show ?thesis by (simp del: set_simps add: list.set(2) [of "hex_char (unat b div 16)"] list.set(2) [of "hex_char (unat b mod 16)"] list.set(1))
qed

lemma toString_hex_chars: "set (toString_hex bytes) \<subseteq> set ''0123456789abcdef''"
proof (induction bytes)
  case Nil
  then show ?case by (simp add: toString_hex_def)
next
  case (Cons b bytes)
  have "toString_hex (b # bytes)
      = [hex_char (unat b div 16), hex_char (unat b mod 16)] @ toString_hex bytes"
    by (simp add: toString_hex_def)
  then have "set (toString_hex (b # bytes))
      = set [hex_char (unat b div 16), hex_char (unat b mod 16)] \<union> set (toString_hex bytes)"
    by (simp only: set_append)
  with hex_pair_chars [of b] Cons.IH show ?case by blast
qed

lemma length_toString_hex: "length (toString_hex bytes) = 2 * length bytes"
  by (induction bytes) (simp_all add: toString_hex_def)

lemma replace_char_decimal:
  assumes "c \<in> set ''0123456789abcdef''"
  shows "decimal (case parseInt16 c of None \<Rightarrow> [c] | Some v \<Rightarrow> toString (v + 1))"
proof (cases "parseInt16 c")
  case None
  with assms have "c \<in> set ''0123456789''"
    by (auto simp: parseInt16_def split: if_splits)
  with None show ?thesis by (simp add: decimal_def)
next
  case (Some v)
  then show ?thesis by (simp add: decimal_toString)
qed

lemma replace_a_f_decimal:
  "set s \<subseteq> set ''0123456789abcdef'' \<Longrightarrow> decimal (replace_a_f s)"
proof (induction s)
  case Nil
  then show ?case by (simp add: replace_a_f_def decimal_def)
next
  case (Cons c s)
  from Cons.prems have c: "c \<in> set ''0123456789abcdef''" and s: "set s \<subseteq> set ''0123456789abcdef''"
    by simp_all
  have "replace_a_f (c # s)
      = (case parseInt16 c of None \<Rightarrow> [c] | Some v \<Rightarrow> toString (v + 1)) @ replace_a_f s"
    by (simp add: replace_a_f_def)
  with replace_char_decimal [OF c] Cons.IH [OF s] show ?case by simp
qed

lemma length_replace_a_f: "length s \<le> length (replace_a_f s)"
proof (induction s)
  case Nil
  then show ?case by (simp add: replace_a_f_def)
next
  case (Cons c s)
  have "1 \<le> length (case parseInt16 c of None \<Rightarrow> [c] | Some v \<Rightarrow> toString (v + 1))"
    using toString_nonempty by (cases "parseInt16 c") (simp_all add: Suc_le_eq)
  moreover have "replace_a_f (c # s)
      = (case parseInt16 c of None \<Rightarrow> [c] | Some v \<Rightarrow> toString (v + 1)) @ replace_a_f s"
    by (simp add: replace_a_f_def)
  ultimately show ?case using Cons.IH by simp
qed

lemma fallback_shape:
  "decimal (take 15 (replace_a_f (toString_hex (randomBytes src pos 8))))
   \<and> length (take 15 (replace_a_f (toString_hex (randomBytes src pos 8)))) = 15"
proof -
  let ?h = "toString_hex (randomBytes src pos 8)"
  have "length ?h = 16" by (simp add: length_toString_hex randomBytes_def)
  with length_replace_a_f [of ?h] have "15 \<le> length (replace_a_f ?h)" by simp
  moreover have "decimal (replace_a_f ?h)"
    by (rule replace_a_f_decimal) (rule toString_hex_chars)
  ultimately show ?thesis by (simp add: decimal_take)
qed

lemma fit15_shape: "decimal s \<Longrightarrow> decimal (fit15 s) \<and> length (fit15 s) = 15"
  by (auto simp: fit15_def padStart_def decimal_def dest: in_set_takeD)

lemma generateTopicId_shape:
  assumes "generateTopicId usedIds e = Some (topicId, usedIds1, e1)"
  shows "length topicId = 15 \<and> decimal topicId"
proof -
  from assms obtain c e0 where loop: "attempt_loop 0 usedIds e = Some (c, e0)"
    by (auto simp: generateTopicId_def split: option.splits)
  from attempt_loop_decimal [OF loop] have c: "decimal c" by simp
  define t1 where "t1 = (if c \<in> set usedIds
      then take 15 (replace_a_f (toString_hex (randomBytes (entropy e0) (drawn e0) 8))) else c)"
  have "decimal t1" using c fallback_shape [of "entropy e0" "drawn e0"] by (simp add: t1_def)
  moreover from assms loop have "topicId = fit15 t1"
    by (auto simp: generateTopicId_def Let_def fit15_def t1_def split: if_splits)
  ultimately show ?thesis using fit15_shape [of t1] by simp
qed

lemma generateTopicId_fresh:
  assumes "attempt_loop 0 usedIds e = Some (c, e0)" and "c \<notin> set usedIds" and "length c = 15"
  shows "\<exists>usedIds1. generateTopicId usedIds e = Some (c, usedIds1, e0)"
  using assms by (simp add: generateTopicId_def Let_def)

lemma candidate_returns:
  assumes "sampler_halts (entropy e)"
  shows "candidate a e \<noteq> None"
proof -
  obtain now e0 where dn: "Date_now e = (now, e0)" by (cases "Date_now e")
  then have ent0: "entropy e0 = entropy e" by (auto simp: Date_now_def)
  from assms ent0 have "secureRandom 10 99 (entropy e0) (drawn e0) \<noteq> None"
    by (simp add: sampler_halts_def)
  then obtain r p where "secureRandom 10 99 (entropy e0) (drawn e0) = Some (r, p)"
    by (cases "secureRandom 10 99 (entropy e0) (drawn e0)") auto
  then have r: "secureRandom_env 10 99 e0 = Some (r, e0\<lparr>drawn := p\<rparr>)"
    by (simp add: secureRandom_env_def)
  from assms ent0 have "secureRandom 1000 9999 (entropy e0) p \<noteq> None"
    by (simp add: sampler_halts_def)
  then have "secureRandom_env 1000 9999 (e0\<lparr>drawn := p\<rparr>) \<noteq> None"
    by (auto simp: secureRandom_env_def split: option.splits)
  with dn r show ?thesis by (auto simp: candidate_def Let_def)
qed

lemma attempt_loop_returns:
  "sampler_halts (entropy e) \<Longrightarrow> attempt_loop a usedIds e \<noteq> None"
proof (induction a usedIds e rule: attempt_loop.induct)
  case (1 attempts usedIds e)
  from candidate_returns [OF "1.prems", of "attempts + 1"]
  obtain c e0 where c: "candidate (attempts + 1) e = Some (c, e0)" by auto
  from candidate_decimal [OF c] "1.prems" have halts: "sampler_halts (entropy e0)" by simp
  show ?case
  proof (cases "c \<in> set usedIds \<and> attempts + 1 < 1000")
    case True
    from "1.IH" [OF c refl True halts] True c show ?thesis
      by (subst attempt_loop.simps) simp
  next
    case False
    with c show ?thesis by (subst attempt_loop.simps) auto
  qed
qed

lemma generateTopicId_returns:
  "sampler_halts (entropy e) \<Longrightarrow> generateTopicId usedIds e \<noteq> None"
  using attempt_loop_returns [of e 0 usedIds]
  by (auto simp: generateTopicId_def Let_def split: option.splits prod.splits)

lemma draw_until_halts:
  "randomValue_of (randomBytes src (pos + k * n) n) \<le> m \<Longrightarrow> draw_until src n m pos \<noteq> None"
proof (induction k arbitrary: pos)
  case 0
  then show ?case by (subst draw_until.simps) (simp add: Let_def)
next
  case (Suc k)
  have "pos + Suc k * n = (pos + n) + k * n" by simp
  with Suc.prems have "randomValue_of (randomBytes src ((pos + n) + k * n) n) \<le> m"
    by (simp only:)
  then have "draw_until src n m (pos + n) \<noteq> None" by (rule Suc.IH)
  then show ?case by (subst draw_until.simps) (simp add: Let_def)
qed

lemma sampler_halts_if:
  assumes "\<forall>pos. \<exists>k. uint (src (pos + 2 * k)) \<le> 179"
  shows "sampler_halts src"
  unfolding sampler_halts_def
proof (intro allI conjI)
  fix pos
  from assms obtain k where k: "uint (src (pos + 2 * k)) \<le> 179" by blast
  have "randomValue_of (randomBytes src (pos + (2 * k) * 1) 1) \<le> 179"
    using k by (simp only: randomValue_of_1 mult_1_right)
  then have "draw_until src 1 179 pos \<noteq> None" by (rule draw_until_halts)
  then show "secureRandom 10 99 src pos \<noteq> None"
    by (auto simp: secureRandom_def bytesNeeded_90 Let_def split: option.splits)
  have "uint (src (pos + 2 * k + 1)) < 256" by (rule uint_byte)
  with k have "uint (src (pos + 2 * k)) * 256 + uint (src (pos + 2 * k + 1)) \<le> 62999" by simp
  then have "randomValue_of (randomBytes src (pos + k * 2) 2) \<le> 62999"
    by (simp only: randomValue_of_2 mult.commute [of k 2])
  then have "draw_until src 2 62999 pos \<noteq> None" by (rule draw_until_halts)
  then show "secureRandom 1000 9999 src pos \<noteq> None"
    by (auto simp: secureRandom_def bytesNeeded_9000 Let_def split: option.splits)
qed

lemma secureRandom_10_99_accept:
  assumes "uint (src pos) \<le> 179"
  shows "secureRandom 10 99 src pos = Some (10 + uint (src pos) mod 90, pos + 1)"
proof -
  have "draw_until src 1 179 pos = Some (uint (src pos), pos + 1)"
    using assms by (subst draw_until.simps) (simp only: randomValue_of_1 Let_def, simp)
  then show ?thesis
    by (simp add: secureRandom_def bytesNeeded_90 Let_def js_rem_nonneg)
qed

lemma secureRandom_1000_9999_accept:
  assumes "uint (src pos) * 256 + uint (src (pos + 1)) \<le> 62999"
  shows "secureRandom 1000 9999 src pos
       = Some (1000 + (uint (src pos) * 256 + uint (src (pos + 1))) mod 9000, pos + 2)"
proof -
  have "draw_until src 2 62999 pos = Some (uint (src pos) * 256 + uint (src (pos + 1)), pos + 2)"
    using assms by (subst draw_until.simps) (simp only: randomValue_of_2 Let_def, simp)
  then show ?thesis
    by (simp add: secureRandom_def bytesNeeded_9000 Let_def js_rem_nonneg)
qed

lemma toString_stuck: "toString 1700000000074 = ''1700000000074''"
  by (simp add: toString_eval)

lemma stuck_candidate:
  assumes "clock e = stuck_clock" and "entropy e = stuck_entropy" and "drawn e + 3 \<le> 2801"
  shows "candidate a e = Some (stuck_id, e\<lparr>ticks := ticks e + 1,
            drawn := drawn e + (if a > 100 then 3 else 1)\<rparr>)"
proof -
  have b0: "stuck_entropy (drawn e) = 95" and b1: "stuck_entropy (drawn e + 1) = 95"
    and b2: "stuck_entropy (drawn e + 1 + 1) = 95"
    using assms(3) by (simp_all add: stuck_entropy_def)
  have "uint (stuck_entropy (drawn e)) \<le> 179" by (simp only: b0) simp
  from secureRandom_10_99_accept [of stuck_entropy "drawn e", OF this]
  have "secureRandom 10 99 stuck_entropy (drawn e) = Some (10 + uint (95 :: 8 word) mod 90, drawn e + 1)"
    by (simp only: b0)
  then have r1: "secureRandom 10 99 stuck_entropy (drawn e) = Some (15, drawn e + 1)" by simp
  have "uint (stuck_entropy (drawn e + 1)) * 256 + uint (stuck_entropy (drawn e + 1 + 1)) \<le> 62999"
    by (simp only: b1 b2) simp
  from secureRandom_1000_9999_accept [of stuck_entropy "drawn e + 1", OF this]
  have "secureRandom 1000 9999 stuck_entropy (drawn e + 1)
      = Some (1000 + (uint (95 :: 8 word) * 256 + uint (95 :: 8 word)) mod 9000, drawn e + 1 + 2)"
    by (simp only: b1 b2)
  then have r2: "secureRandom 1000 9999 stuck_entropy (Suc (drawn e)) = Some (7415, drawn e + 3)"
    by simp
  have s15: "js_toString 15 = ''15''" and s7415: "js_toString 7415 = ''7415''"
    by (simp_all add: js_toString_def toString_eval)
  show ?thesis
    using assms(1,2)
    by (simp add: candidate_def Date_now_def secureRandom_env_def r1 r2 s15 s7415
          stuck_clock_def toString_stuck stuck_id_def Let_def)
qed

lemma stuck_loop:
  "clock e = stuck_clock \<Longrightarrow> entropy e = stuck_entropy \<Longrightarrow> a < 1000 \<Longrightarrow>
   drawn e + stuck_need a \<le> 2801 \<Longrightarrow>
     attempt_loop a [stuck_id] e
       = Some (stuck_id, e\<lparr>ticks := ticks e + (1000 - a), drawn := drawn e + stuck_need a\<rparr>)"
proof (induction a "[stuck_id]" e rule: attempt_loop.induct)
  case (1 attempts e)
  let ?e1 = "e\<lparr>ticks := ticks e + 1, drawn := drawn e + (if attempts + 1 > 100 then 3 else 1)\<rparr>"
  from "1.prems"(3,4) have room: "drawn e + 3 \<le> 2801"
    by (simp add: stuck_need_def split: if_splits)
  have c: "candidate (attempts + 1) e = Some (stuck_id, ?e1)"
    using "1.prems"(1,2) room by (rule stuck_candidate)
  have split_need: "(if attempts + 1 > 100 then 3 else 1) + stuck_need (attempts + 1) = stuck_need attempts"
    if "attempts + 1 < 1000"
    using that by (simp add: stuck_need_def, arith)
  show ?case
  proof (cases "attempts + 1 < 1000")
    case True
    have "attempt_loop (attempts + 1) [stuck_id] ?e1
        = Some (stuck_id, ?e1\<lparr>ticks := ticks ?e1 + (1000 - (attempts + 1)),
                               drawn := drawn ?e1 + stuck_need (attempts + 1)\<rparr>)"
    proof (rule "1.hyps" [OF c refl])
      show "stuck_id \<in> set [stuck_id] \<and> attempts + 1 < 1000" using True by simp
      show "clock ?e1 = stuck_clock" using "1.prems"(1) by simp
      show "entropy ?e1 = stuck_entropy" using "1.prems"(2) by simp
      show "attempts + 1 < 1000" by (rule True)
      show "drawn ?e1 + stuck_need (attempts + 1) \<le> 2801"
        using "1.prems"(4) split_need [OF True] by simp
    qed
    moreover have "ticks ?e1 + (1000 - (attempts + 1)) = ticks e + (1000 - attempts)"
      using True by simp
    moreover have "drawn ?e1 + stuck_need (attempts + 1) = drawn e + stuck_need attempts"
      using split_need [OF True] by simp
    ultimately have "attempt_loop (attempts + 1) [stuck_id] ?e1
        = Some (stuck_id, e\<lparr>ticks := ticks e + (1000 - attempts),
                              drawn := drawn e + stuck_need attempts\<rparr>)"
      by simp
    with c True show ?thesis by (subst attempt_loop.simps) simp
  next
    case False
    with "1.prems"(3) have a: "attempts = 999" by simp
    from c a show ?thesis
      by (subst attempt_loop.simps) (simp add: stuck_need_def)
  qed
qed

lemma stuck_first_call:
  "generateTopicId [] stuck_env = Some (stuck_id, [stuck_id], stuck_env\<lparr>ticks := 1, drawn := 1\<rparr>)"
proof -
  have c: "candidate (Suc 0) stuck_env = Some (stuck_id, stuck_env\<lparr>ticks := 1, drawn := 1\<rparr>)"
    using stuck_candidate [of stuck_env "Suc 0"] by (simp add: stuck_env_def)
  have "attempt_loop 0 [] stuck_env = Some (stuck_id, stuck_env\<lparr>ticks := 1, drawn := 1\<rparr>)"
    by (subst attempt_loop.simps) (simp add: c)
  then show ?thesis
    by (simp add: generateTopicId_def Let_def set_add_def stuck_id_def)
qed

lemma stuck_fallback:
  "take 15 (replace_a_f (toString_hex (randomBytes stuck_entropy 2801 8))) = stuck_id"
proof -
  have eight: "[0..<8] = [0, 1, 2, 3, 4, 5, 6, 7]" by (simp add: upt_rec)
  have "randomBytes stuck_entropy 2801 8 = [23, 0, 0, 0, 0, 7, 65, 80]"
    by (simp add: randomBytes_def eight stuck_entropy_def)
  then show ?thesis
    by (simp add: toString_hex_def hex_char_def replace_a_f_def parseInt16_def stuck_id_def)
qed

lemma stuck_second_call:
  "generateTopicId [stuck_id] (stuck_env\<lparr>ticks := 1, drawn := 1\<rparr>)
     = Some (stuck_id, [stuck_id], stuck_env\<lparr>ticks := 1001, drawn := 2809\<rparr>)"
proof -
  have "attempt_loop 0 [stuck_id] (stuck_env\<lparr>ticks := 1, drawn := 1\<rparr>)
      = Some (stuck_id, stuck_env\<lparr>ticks := 1001, drawn := 2801\<rparr>)"
    using stuck_loop [of "stuck_env\<lparr>ticks := 1, drawn := 1\<rparr>" 0]
    by (simp add: stuck_env_def stuck_need_def)
  moreover have "entropy (stuck_env\<lparr>ticks := 1001, drawn := 2801\<rparr>) = stuck_entropy"
    by (simp add: stuck_env_def)
  moreover have "length stuck_id = 15" by (simp add: stuck_id_def)
  ultimately show ?thesis
    by (simp add: generateTopicId_def Let_def set_add_def stuck_fallback del: length_take)
qed

text \<open>
  C8. Whenever \<open>generateTopicId\<close> returns, the identifier has exactly 15 characters, all
  of them decimal digits, whatever the clock reads, whatever bytes are drawn and
  whatever the set of used identifiers holds; this covers the candidates of the first
  hundred attempts, those of the later attempts and the fallback. It does return
  whenever the rejection loop of \<open>secureRandom\<close> is left from every position of the byte
  stream.
\<close>

theorem generateTopicId_fifteen_digits:
  "(\<forall>topicId usedIds1 e1. generateTopicId usedIds e = Some (topicId, usedIds1, e1) \<longrightarrow>
       length topicId = 15 \<and> set topicId \<subseteq> set ''0123456789'' \<and> validateTopicId topicId)
   \<and> (sampler_halts (entropy e) \<longrightarrow>
        (\<exists>topicId usedIds1 e1. generateTopicId usedIds e = Some (topicId, usedIds1, e1)))"
proof -
  have shape: "length topicId = 15 \<and> set topicId \<subseteq> set ''0123456789'' \<and> validateTopicId topicId"
    if "generateTopicId usedIds e = Some (topicId, usedIds1, e1)" for topicId usedIds1 e1
    using generateTopicId_shape [OF that] by (simp add: decimal_def validateTopicId_def)
  have returns: "\<exists>topicId usedIds1 e1. generateTopicId usedIds e = Some (topicId, usedIds1, e1)"
    if "sampler_halts (entropy e)"
    using generateTopicId_returns [OF that, of usedIds]
    by (cases "generateTopicId usedIds e") auto
  from shape returns show ?thesis by blast
qed

lemma ex_gen_env_halts: "sampler_halts (entropy ex_gen_env)"
proof (rule sampler_halts_if, rule allI)
  fix pos
  have "uint (entropy ex_gen_env (pos + 2 * 0)) \<le> 179" by (simp add: ex_gen_env_def)
  then show "\<exists>k. uint (entropy ex_gen_env (pos + 2 * k)) \<le> 179" by blast
qed

lemma ex_gen_env_first_id:
  "generateTopicId [] ex_gen_env
     = Some (''170000000000010'', [''170000000000010''], ex_gen_env\<lparr>ticks := 1, drawn := 1\<rparr>)"
proof -
  have "uint (entropy ex_gen_env (drawn ex_gen_env)) \<le> 179" by (simp add: ex_gen_env_def)
  from secureRandom_10_99_accept [of "entropy ex_gen_env" "drawn ex_gen_env", OF this]
  have r: "secureRandom 10 99 (\<lambda>i. 0) 0 = Some (10, 1)" by (simp add: ex_gen_env_def)
  have "candidate (Suc 0) ex_gen_env
      = Some (''170000000000010'', ex_gen_env\<lparr>ticks := 1, drawn := 1\<rparr>)"
    by (simp add: candidate_def Date_now_def secureRandom_env_def ex_gen_env_def r
          js_toString_def toString_eval)
  then have "attempt_loop 0 [] ex_gen_env
      = Some (''170000000000010'', ex_gen_env\<lparr>ticks := 1, drawn := 1\<rparr>)"
    by (subst attempt_loop.simps) simp
  then show ?thesis by (simp add: generateTopicId_def Let_def set_add_def)
qed

theorem generateTopicId_fifteen_digits_witness:
  "sampler_halts (entropy ex_gen_env)
   \<and> generateTopicId [] ex_gen_env
       = Some (''170000000000010'', [''170000000000010''], ex_gen_env\<lparr>ticks := 1, drawn := 1\<rparr>)
   \<and> length ''170000000000010'' = 15
   \<and> validateTopicId ''170000000000010''"
  using generateTopicId_fifteen_digits [of "[]" ex_gen_env] ex_gen_env_halts ex_gen_env_first_id
  by simp

text \<open>
  C2, at a failing run. The clock reads the same millisecond throughout. The first call
  returns \<open>170000000007415\<close>. In the second call every one of the 1000 attempts draws
  the same candidate again, and the fallback, whose result is not looked up in the set
  of used identifiers, draws eight bytes that spell the same fifteen digits.
\<close>

theorem generateTopicId_repeats:
  "generateTopicId [] stuck_env
     = Some (''170000000007415'', [''170000000007415''], stuck_env\<lparr>ticks := 1, drawn := 1\<rparr>)
   \<and> generateTopicId [''170000000007415''] (stuck_env\<lparr>ticks := 1, drawn := 1\<rparr>)
     = Some (''170000000007415'', [''170000000007415''], stuck_env\<lparr>ticks := 1001, drawn := 2809\<rparr>)"
  using stuck_first_call stuck_second_call by (simp add: stuck_id_def)

end
